theory Spec2Isabelle
  imports Main "HOL-Library.Word" "HOL-Library.Sublist"
begin

section \<open>Strings of the host language\<close>

text \<open>
  The services are TypeScript; at run time a string is a sequence of UTF-16 code units,
  \<open>length\<close> counts code units, and \<open>includes\<close>, \<open>trim\<close> and the regular expressions
  (none carries the \<open>u\<close> flag) work on code units. A string is therefore a list of
  16-bit words. \<open>js\<close> embeds an ASCII literal of the source.
\<close>

type_synonym jsstring = "16 word list"

definition js :: "string \<Rightarrow> jsstring" where
  "js s = map of_char s"

text \<open>\<open>String.prototype.includes\<close>: the argument occurs as a contiguous run.\<close>

fun str_includes :: "jsstring \<Rightarrow> jsstring \<Rightarrow> bool" where
  "str_includes [] t = (t = [])"
| "str_includes (c # s) t = (prefix t (c # s) \<or> str_includes s t)"

text \<open>
  The code units that \<open>trim\<close> strips and that \<open>\s\<close> matches: ECMAScript's WhiteSpace
  and LineTerminator productions. The dot of a regular expression without the \<open>s\<close> flag
  matches every code unit but a line terminator.
\<close>

definition isLineTerminator :: "16 word \<Rightarrow> bool" where
  "isLineTerminator c = (c = 0x000A \<or> c = 0x000D \<or> c = 0x2028 \<or> c = 0x2029)"

definition isWhiteSpace :: "16 word \<Rightarrow> bool" where
  "isWhiteSpace c =
     (c = 0x0009 \<or> c = 0x000B \<or> c = 0x000C \<or> c = 0x0020 \<or> c = 0x00A0 \<or> c = 0x1680
      \<or> (0x2000 \<le> c \<and> c \<le> 0x200A) \<or> c = 0x202F \<or> c = 0x205F \<or> c = 0x3000
      \<or> c = 0xFEFF \<or> isLineTerminator c)"

definition trim :: "jsstring \<Rightarrow> jsstring" where
  "trim s = rev (dropWhile isWhiteSpace (rev (dropWhile isWhiteSpace s)))"

text \<open>
  \<open>s.replace(/\s+/g, r)\<close>: every maximal run of white space becomes one \<open>r\<close>. The
  function writes \<open>r\<close> at the last code unit of a run and drops the ones before it.
\<close>

fun replace_spaces :: "jsstring \<Rightarrow> jsstring \<Rightarrow> jsstring" where
  "replace_spaces r [] = []"
| "replace_spaces r (c # s) =
     (if isWhiteSpace c then
        (if s \<noteq> [] \<and> isWhiteSpace (hd s) then replace_spaces r s
         else r @ replace_spaces r s)
      else c # replace_spaces r s)"

text \<open>\<open>Array.prototype.join\<close> on an array of strings.\<close>

fun join :: "jsstring \<Rightarrow> jsstring list \<Rightarrow> jsstring" where
  "join sep [] = []"
| "join sep [x] = x"
| "join sep (x # y # ys) = x @ sep @ join sep (y # ys)"

text \<open>
  A non-negative integer inside a template literal (\<open>${phaseNumber}\<close>, \<open>${index + 1}\<close>)
  is printed in decimal.
\<close>

fun decimal :: "nat \<Rightarrow> jsstring" where
  "decimal n =
     (if n < 10 then [of_nat (48 + n)] else decimal (n div 10) @ [of_nat (48 + n mod 10)])"

text \<open>\<open>xs.map((x, index) => ...)\<close>: the elements paired with their indices.\<close>

definition indexed :: "'a list \<Rightarrow> (nat \<times> 'a) list" where
  "indexed xs = zip [0 ..< length xs] xs"

text \<open>
  Three built-ins of the run-time system are not code of the repository and are taken
  as they come: \<open>String.prototype.toLowerCase\<close> (Unicode case conversion, which may
  change the length of a string), the quoting of a string by \<open>JSON.stringify\<close>, and the
  text that a key which an object literal does not define reads through
  \<open>Object.prototype\<close> (\<open>constructor\<close>, \<open>toString\<close>, ...), if any. Every theorem below
  holds for every host.
\<close>

record host =
  toLowerCase :: "jsstring \<Rightarrow> jsstring"
  quoteJSON :: "jsstring \<Rightarrow> jsstring"
  inheritedText :: "jsstring \<Rightarrow> jsstring option"

text \<open>
  The host used in the worked examples. It agrees with ECMAScript on the strings the
  examples use: ASCII text without quotes, backslashes or control characters, and keys
  that \<open>Object.prototype\<close> does not define.
\<close>

definition asciiLower :: "16 word \<Rightarrow> 16 word" where
  "asciiLower c = (if 0x41 \<le> c \<and> c \<le> 0x5A then c + 0x20 else c)"

definition ascii_host :: host where
  "ascii_host =
     \<lparr>toLowerCase = map asciiLower,
      quoteJSON = (\<lambda>s. [0x22] @ s @ [0x22]),
      inheritedText = (\<lambda>k. None)\<rparr>"

text \<open>
  A host that lower-cases one more character as ECMAScript does: the capital I with a
  dot above, U+0130, whose lower case is the two code units U+0069 U+0307.
\<close>

definition lowerUnit :: "16 word \<Rightarrow> jsstring" where
  "lowerUnit c = (if c = 0x0130 then [0x0069, 0x0307] else [asciiLower c])"

definition dotted_host :: host where
  "dotted_host =
     \<lparr>toLowerCase = (\<lambda>s. concat (map lowerUnit s)),
      quoteJSON = (\<lambda>s. [0x22] @ s @ [0x22]),
      inheritedText = (\<lambda>k. None)\<rparr>"

text \<open>An \<open>Error\<close> object, by its message.\<close>

datatype js_error = Error jsstring

section \<open>The data model (types)\<close>

record ValidationResult =
  isValid :: bool
  errors :: "jsstring list"
  sanitizedInput :: "jsstring option"

text \<open>
  A field of a record is a constant of the theory. Where two interfaces of the source
  share a field name, or a field shares its name with a local variable or with a
  command of Isabelle, the field carries a prefix: \<open>ent_\<close> (\<open>ExtractedEntities\<close>),
  \<open>cat_\<close> (\<open>ProjectCategory\<close>), \<open>md_\<close> (a file's metadata), \<open>file_\<close>
  (\<open>GeneratedFile\<close>), \<open>req_\<close> (the request metadata), \<open>out_\<close> (the result of
  \<open>generate\<close>).
\<close>

record ExtractedEntities =
  ent_features :: "jsstring list"
  ent_technologies :: "jsstring list"
  ent_requirements :: "jsstring list"
  ent_constraints :: "jsstring list"

record ProjectCategory =
  cat_type :: jsstring
  cat_complexity :: jsstring

record EstimatedTimeline =
  phases :: "jsstring list"
  totalWeeks :: nat

record TechnologySuggestions =
  suggested :: "jsstring list"
  alternatives :: "jsstring list"

record StructuredSpec =
  projectName :: jsstring
  description :: jsstring
  features :: "jsstring list"
  technologies :: TechnologySuggestions
  requirements :: "jsstring list"
  constraints :: "jsstring list"
  acceptanceCriteria :: "jsstring list"
  estimatedTimeline :: EstimatedTimeline

section \<open>services/input-processor.ts\<close>

definition MIN_LENGTH :: nat where
  "MIN_LENGTH = 10"

definition MAX_LENGTH :: nat where
  "MAX_LENGTH = 10000"

subsection \<open>sanitizeInput\<close>

text \<open>
  With the \<open>i\<close> flag and no \<open>u\<close> flag a pattern character and an input code unit match
  when their canonical forms (the simple upper-case mapping, kept only if it does not
  take a code unit from 128 or above to one below 128) are equal. Every character of
  the two literals below is ASCII, so an input code unit matches exactly when it is
  the same ASCII character up to the case of a letter: no code unit from 128 up has an
  ASCII canonical form.
\<close>

definition canonicalize :: "16 word \<Rightarrow> 16 word" where
  "canonicalize c = (if 0x61 \<le> c \<and> c \<le> 0x7A then c - 0x20 else c)"

definition ci_prefix :: "jsstring \<Rightarrow> jsstring \<Rightarrow> bool" where
  "ci_prefix pat s = prefix (map canonicalize pat) (map canonicalize s)"

text \<open>
  \<open>.*?<\/script>\<close> at the head of \<open>s\<close>: the lazy star tries the closing tag first and
  otherwise consumes one code unit that is not a line terminator. The result is what
  follows the match.
\<close>

fun lazy_close :: "jsstring \<Rightarrow> jsstring option" where
  "lazy_close [] = None"
| "lazy_close (c # s) =
     (if ci_prefix (js ''</script>'') (c # s) then Some (drop 9 (c # s))
      else if isLineTerminator c then None
      else lazy_close s)"

text \<open>
  \<open><script[^>]*>.*?<\/script>\<close> at the head of \<open>s\<close>. The greedy class \<open>[^>]*\<close> must be
  followed by \<open>>\<close>, so it runs to the first \<open>>\<close> (over line breaks too).
\<close>

definition match_script :: "jsstring \<Rightarrow> jsstring option" where
  "match_script s =
     (if ci_prefix (js ''<script'') s then
        (case dropWhile (\<lambda>c. c \<noteq> 0x3E) (drop 7 s) of
           [] \<Rightarrow> None
         | gt # body \<Rightarrow> lazy_close body)
      else None)"

lemma lazy_close_shorter: "lazy_close s = Some r \<Longrightarrow> length r < length s"
  by (induction s) (auto split: if_splits)

lemma match_script_shorter: "match_script s = Some r \<Longrightarrow> length r < length s"
proof -
  assume m: "match_script s = Some r"
  have le: "length (dropWhile (\<lambda>c. c \<noteq> 0x3E) (drop 7 s)) \<le> length s"
    by (rule order_trans [OF length_dropWhile_le]) simp
  from m obtain gt body where
    d: "dropWhile (\<lambda>c. c \<noteq> 0x3E) (drop 7 s) = gt # body" and c: "lazy_close body = Some r"
    by (auto simp: match_script_def split: if_splits list.splits)
  from le d have "length body < length s" by simp
  with lazy_close_shorter [OF c] show ?thesis by simp
qed

text \<open>
  \<open>input.replace(/<script[^>]*>.*?<\/script>/gi, '')\<close>: the matches are found from left
  to right, each search starting where the last match ended, and removed.
\<close>

function replace_script :: "jsstring \<Rightarrow> jsstring" where
  "replace_script [] = []"
| "replace_script (c # s) =
     (case match_script (c # s) of
        Some rest \<Rightarrow> replace_script rest
      | None \<Rightarrow> c # replace_script s)"
  by pat_completeness auto
termination
  by (relation "measure length") (auto dest: match_script_shorter)

text \<open>
  \<open>.replace(/<[^>]*>/g, '')\<close>: at a \<open><\<close> the class runs to the first \<open>>\<close> that follows,
  if there is one; the match is removed and the search goes on behind it.
\<close>

function replace_tags :: "jsstring \<Rightarrow> jsstring" where
  "replace_tags [] = []"
| "replace_tags (c # s) =
     (if c = 0x3C \<and> 0x3E \<in> set s
      then replace_tags (tl (dropWhile (\<lambda>d. d \<noteq> 0x3E) s))
      else c # replace_tags s)"
  by pat_completeness auto
termination
proof (relation "measure length")
  show "wf (measure length)" by simp
next
  fix c :: "16 word" and s :: jsstring
  have "length (tl (dropWhile (\<lambda>d. d \<noteq> 0x3E) s)) \<le> length s"
    by (simp add: order_trans [OF diff_le_self length_dropWhile_le])
  then show "(tl (dropWhile (\<lambda>d. d \<noteq> 0x3E) s), c # s) \<in> measure length"
    by simp
next
  fix c :: "16 word" and s :: jsstring
  show "(s, c # s) \<in> measure length" by simp
qed

definition sanitizeInput :: "jsstring \<Rightarrow> jsstring" where
  "sanitizeInput input = trim (replace_tags (replace_script input))"

subsection \<open>validateInput\<close>

text \<open>
  \<open>/^[\x00-\x7F\u0080-\uFFFF]*$/.test(input)\<close>: without the \<open>m\<close> flag the anchors are the
  two ends of the input, and a class matches line terminators as well.
\<close>

definition encoding_pattern :: "jsstring \<Rightarrow> bool" where
  "encoding_pattern input =
     list_all (\<lambda>c. (0x0000 \<le> c \<and> c \<le> 0x007F) \<or> (0x0080 \<le> c \<and> c \<le> 0xFFFF)) input"

text \<open>
  \<open>!input\<close> holds of the empty string only. Neither \<open>includes\<close> nor \<open>test\<close> raises on a
  string, so the handler of the \<open>try\<close> block, which would push the same message, is
  never entered.
\<close>

definition validateInput :: "jsstring \<Rightarrow> ValidationResult" where
  "validateInput input =
     (if input = [] \<or> length (trim input) = 0 then
        \<lparr>isValid = False, errors = [js ''Input is required''], sanitizedInput = None\<rparr>
      else
        let errors1 = (if length input < MIN_LENGTH
                       then [js ''Input must be at least 10 characters''] else []);
            errors2 = (if length input > MAX_LENGTH
                       then errors1 @ [js ''Input exceeds maximum length of 10000 characters'']
                       else errors1);
            errors3 = (if str_includes input [0xFFFD] \<or> \<not> encoding_pattern input
                       then errors2 @ [js ''Invalid character encoding detected'']
                       else errors2);
            sanitized = sanitizeInput input
        in \<lparr>isValid = (length errors3 = 0), errors = errors3,
            sanitizedInput = Some sanitized\<rparr>)"

subsection \<open>extractEntities\<close>

text \<open>
  \<open>keywords.forEach(k => { if (lowerInput.includes(k)) list.push(out(k)) })\<close>: the
  keywords found, in the order of the table, each as \<open>out\<close> writes it.
\<close>

definition push_matches ::
  "jsstring \<Rightarrow> (jsstring \<Rightarrow> jsstring) \<Rightarrow> jsstring list \<Rightarrow> jsstring list" where
  "push_matches lowerInput out keywords =
     foldl (\<lambda>acc k. if str_includes lowerInput k then acc @ [out k] else acc) [] keywords"

definition techKeywords :: "jsstring list" where
  "techKeywords = [js ''node.js'', js ''postgresql'', js ''redis'', js ''docker'', js ''react'']"

definition techName :: "jsstring \<Rightarrow> jsstring" where
  "techName tech =
     (if tech = js ''node.js'' then js ''Node.js''
      else if tech = js ''postgresql'' then js ''PostgreSQL''
      else if tech = js ''redis'' then js ''Redis''
      else if tech = js ''docker'' then js ''Docker''
      else if tech = js ''react'' then js ''React''
      else tech)"

definition requirementKeywords :: "jsstring list" where
  "requirementKeywords =
     [js ''user registration'', js ''product catalog'', js ''payment processing'',
      js ''shopping cart'', js ''order management'', js ''admin dashboard'',
      js ''email notifications'', js ''mobile responsive'', js ''seo optimization'',
      js ''analytics integration'']"

definition extractEntities :: "host \<Rightarrow> jsstring \<Rightarrow> ExtractedEntities" where
  "extractEntities h input =
     (let lowerInput = toLowerCase h input in
      \<lparr>ent_features =
         (if str_includes lowerInput (js ''blog application'') then [js ''blog application''] else [])
         @ (if str_includes lowerInput (js ''user authentication'') then [js ''user authentication''] else [])
         @ (if str_includes lowerInput (js ''todo app'') then [js ''todo app''] else []),
       ent_technologies = push_matches lowerInput techName techKeywords,
       ent_requirements = push_matches lowerInput (\<lambda>req. req) requirementKeywords,
       ent_constraints =
         (if str_includes lowerInput (js ''< 10ms latency'') then [js ''< 10ms latency''] else [])
         @ (if str_includes lowerInput (js ''multi-factor authentication'')
            then [js ''Multi-factor authentication''] else [])\<rparr>)"

subsection \<open>categorizeProject\<close>

definition categorizeProject :: "host \<Rightarrow> jsstring \<Rightarrow> ProjectCategory" where
  "categorizeProject h input =
     (let lowerInput = toLowerCase h input in
      if str_includes lowerInput (js ''e-commerce'')
         \<or> str_includes lowerInput (js ''shopping'')
         \<or> str_includes lowerInput (js ''payment'')
      then \<lparr>cat_type = js ''e-commerce'', cat_complexity = js ''high''\<rparr>
      else if str_includes lowerInput (js ''microservices'')
         \<or> str_includes lowerInput (js ''financial trading'')
      then \<lparr>cat_type = js ''microservices'', cat_complexity = js ''enterprise''\<rparr>
      else if str_includes lowerInput (js ''todo'') \<and> length lowerInput < 50
      then \<lparr>cat_type = js ''utility'', cat_complexity = js ''low''\<rparr>
      else \<lparr>cat_type = js ''web-application'', cat_complexity = js ''medium''\<rparr>)"

subsection \<open>generateStructuredSpec\<close>

definition extractProjectName :: "host \<Rightarrow> jsstring \<Rightarrow> jsstring" where
  "extractProjectName h input =
     (let lowerInput = toLowerCase h input in
      if str_includes lowerInput (js ''blog'') then js ''Blog Application''
      else if str_includes lowerInput (js ''e-commerce'') then js ''E-commerce Platform''
      else if str_includes lowerInput (js ''todo'') then js ''Todo Application''
      else if str_includes lowerInput (js ''trading'') then js ''Trading Platform''
      else js ''Web Application'')"

definition generateDescription :: "jsstring \<Rightarrow> ExtractedEntities \<Rightarrow> jsstring" where
  "generateDescription input entities =
     js ''A comprehensive application featuring '' @ join (js '', '') (ent_features entities)"

text \<open>
  \<open>[...new Set(suggested)]\<close>: a \<open>Set\<close> keeps its elements in insertion order, adding one
  that it already holds changes nothing, and the spread lists them in that order.
\<close>

definition set_add :: "'a list \<Rightarrow> 'a \<Rightarrow> 'a list" where
  "set_add s x = (if x \<in> set s then s else s @ [x])"

definition new_Set :: "'a list \<Rightarrow> 'a list" where
  "new_Set xs = foldl set_add [] xs"

definition suggestTechnologies :: "ProjectCategory \<Rightarrow> ExtractedEntities \<Rightarrow> jsstring list" where
  "suggestTechnologies category entities =
     (let suggested0 = [js ''React'', js ''Node.js''];
          suggested1 = (if cat_complexity category = js ''high''
                           \<or> cat_complexity category = js ''enterprise''
                        then suggested0 @ [js ''PostgreSQL'', js ''Redis'']
                        else suggested0);
          suggested2 = suggested1 @ ent_technologies entities
      in new_Set suggested2)"

definition generateAcceptanceCriteria :: "ExtractedEntities \<Rightarrow> jsstring list" where
  "generateAcceptanceCriteria entities =
     map (\<lambda>feature. js ''User should be able to use '' @ feature @ js '' successfully'')
       (ent_features entities)"

definition estimateTimeline :: "ProjectCategory \<Rightarrow> ExtractedEntities \<Rightarrow> EstimatedTimeline" where
  "estimateTimeline category entities =
     (let baseWeeks = (if cat_complexity category = js ''low'' then 2
                       else if cat_complexity category = js ''medium'' then 8
                       else if cat_complexity category = js ''high'' then 16 else 24)
      in \<lparr>phases = [js ''Planning'', js ''Development'', js ''Testing'', js ''Deployment''],
          totalWeeks = baseWeeks\<rparr>)"

text \<open>
  The body of the \<open>try\<close> block calls only the total functions above, so the promise
  always resolves; the handler (\<open>Failed to process input\<close>) has no path to it here.
\<close>

definition generateStructuredSpec :: "host \<Rightarrow> jsstring \<Rightarrow> js_error + StructuredSpec" where
  "generateStructuredSpec h input =
     (let entities = extractEntities h input;
          category = categorizeProject h input
      in Inr \<lparr>projectName = extractProjectName h input,
              description = generateDescription input entities,
              features = ent_features entities,
              technologies = \<lparr>suggested = suggestTechnologies category entities,
                              alternatives = []\<rparr>,
              requirements = ent_requirements entities,
              constraints = ent_constraints entities,
              acceptanceCriteria = generateAcceptanceCriteria entities,
              estimatedTimeline = estimateTimeline category entities\<rparr>)"

section \<open>services/sparc-generator.ts\<close>

record SparcMetadata =
  generatedAt :: jsstring
  md_projectName :: jsstring
  md_complexity :: jsstring
  md_phase :: jsstring
  md_technologies :: "jsstring list"

record SparcFile =
  phase :: jsstring
  content :: jsstring
  metadata :: SparcMetadata

record GeneratedFile =
  file_name :: jsstring
  file_content :: jsstring
  file_type :: jsstring

text \<open>
  The request metadata that \<open>process\<close> attaches to a spec. The fields come from a JSON
  body, so each may be absent (\<open>None\<close>).
\<close>

record RequestMetadata =
  req_complexity :: "jsstring option"
  req_framework :: "jsstring option"
  req_includeTests :: "bool option"
  req_includeDocs :: "bool option"
  req_aiProvider :: "jsstring option"

text \<open>What \<open>generate\<close> resolves to: a \<open>SparcOutput\<close> without its two timing fields.\<close>

record GenerateOutput =
  out_files :: "GeneratedFile list"
  out_specification :: jsstring
  out_architecture :: jsstring

definition validPhases :: "jsstring list" where
  "validPhases =
     [js ''specification'', js ''pseudocode'', js ''architecture'', js ''refinement'',
      js ''completion'']"

subsection \<open>determineComplexity, getTechnologyDescription, getPhaseTitle\<close>

definition determineComplexity :: "StructuredSpec \<Rightarrow> jsstring" where
  "determineComplexity spec =
     (let featureCount = length (features spec);
          hasComplexFeatures = (length (requirements spec) > 3 \<or> length (constraints spec) > 1)
      in if featureCount \<le> 2 \<and> \<not> hasComplexFeatures then js ''low''
         else if featureCount \<le> 5 \<and> \<not> hasComplexFeatures then js ''medium''
         else js ''high'')"

definition descriptions :: "(jsstring \<times> jsstring) list" where
  "descriptions =
     [(js ''React'', js ''Frontend user interface framework''),
      (js ''Node.js'', js ''Backend JavaScript runtime''),
      (js ''PostgreSQL'', js ''Relational database management system''),
      (js ''Redis'', js ''In-memory data structure store for caching''),
      (js ''Docker'', js ''Containerization platform''),
      (js ''Express'', js ''Web application framework for Node.js'')]"

text \<open>
  \<open>descriptions[tech] || 'Technology component'\<close>: the object's own entry, else what the
  key reads through the prototype (never a falsy value), else the default.
\<close>

definition getTechnologyDescription :: "host \<Rightarrow> jsstring \<Rightarrow> jsstring" where
  "getTechnologyDescription h tech =
     (case map_of descriptions tech of
        Some d \<Rightarrow> d
      | None \<Rightarrow> (case inheritedText h tech of
                  Some d \<Rightarrow> d
                | None \<Rightarrow> js ''Technology component''))"

definition titles :: "(jsstring \<times> jsstring) list" where
  "titles =
     [(js ''specification'', js ''Specification''),
      (js ''pseudocode'', js ''Pseudocode''),
      (js ''architecture'', js ''Architecture''),
      (js ''refinement'', js ''Refinement''),
      (js ''completion'', js ''Completion'')]"

text \<open>
  \<open>titles[phase]\<close>: the object's own entry, else the value that the key reads through
  the prototype (given by its text), else \<open>undefined\<close> (\<open>None\<close>).
\<close>

definition getPhaseTitle :: "host \<Rightarrow> jsstring \<Rightarrow> jsstring option" where
  "getPhaseTitle h p =
     (case map_of titles p of
        Some t \<Rightarrow> Some t
      | None \<Rightarrow> inheritedText h p)"

subsection \<open>The five documents\<close>

text \<open>
  Each function is one template literal of the source; the static text stands between
  the interpolations as it does there, line breaks included. The arrows and the box
  drawing characters of the architecture diagram and the check mark of the completion
  document are given by their code units.
\<close>

definition generateSpecificationContent :: "nat \<Rightarrow> StructuredSpec \<Rightarrow> jsstring" where
  \<open>generateSpecificationContent phaseNumber spec =
     js ''# Phase ''
     @ decimal phaseNumber
     @ js '': Specification - ''
     @ projectName spec
     @ js ''

## Project Overview
''
     @ description spec
     @ js ''

## Technology Stack
''
     @ join (js ''\<newline>'')
         (map (\<lambda>tech. js ''- '' @ tech)
            (suggested (technologies spec)))
     @ js ''

## Core Functional Requirements
''
     @ join (js ''\<newline>\<newline>'')
         (map (\<lambda>(index, feature). js ''### FR'' @ decimal (index + 1) @ js '': '' @ feature @ js ''
- Implementation of '' @ feature @ js ''
- User interface components
- Backend service integration'')
            (indexed (features spec)))
     @ js ''

## Non-Functional Requirements
''
     @ join (js ''\<newline>'')
         (map (\<lambda>req. js ''- '' @ req)
            (requirements spec))
     @ js ''

## Technical Constraints
''
     @ join (js ''\<newline>'')
         (map (\<lambda>constraint. js ''- '' @ constraint)
            (constraints spec))
     @ js ''

## Acceptance Criteria
''
     @ join (js ''\<newline>'')
         (map (\<lambda>(index, criteria). decimal (index + 1) @ js ''. '' @ criteria)
            (indexed (acceptanceCriteria spec)))
     @ js ''

## Success Metrics
- User satisfaction rating > 4.0/5.0
- System uptime > 99.9%
- Response time < 200ms for critical operations
- Security compliance with industry standards
''\<close>

definition generatePseudocodeContent :: "nat \<Rightarrow> StructuredSpec \<Rightarrow> jsstring" where
  \<open>generatePseudocodeContent phaseNumber spec =
     js ''# Phase ''
     @ decimal phaseNumber
     @ js '': Pseudocode - ''
     @ projectName spec
     @ js ''

## Core Algorithm Design

''
     @ join (js ''\<newline>'')
         (map (\<lambda>feature. js ''### '' @ feature @ js '' Flow
```
FUNCTION handle'' @ replace_spaces [] feature @ js ''():
  BEGIN
    VALIDATE user input
    AUTHENTICATE user session
    PROCESS business logic
    UPDATE data store
    RETURN success response
  END
```
'')
            (features spec))
     @ js ''

## Data Structures
```
STRUCTURE User:
  id: INTEGER
  username: STRING
  email: STRING
  createdAt: TIMESTAMP
  
STRUCTURE ''
     @ replace_spaces [] (projectName spec)
     @ js ''Data:
  id: INTEGER
  userId: INTEGER (FK)
  content: JSON
  updatedAt: TIMESTAMP
```

## Error Handling
```
FUNCTION handleError(error):
  LOG error details
  IF error.type == "VALIDATION":
    RETURN user-friendly message
  ELSE IF error.type == "AUTH":
    REDIRECT to login
  ELSE:
    RETURN generic error message
```
''\<close>

definition generateArchitectureContent :: "host \<Rightarrow> nat \<Rightarrow> StructuredSpec \<Rightarrow> jsstring" where
  \<open>generateArchitectureContent h phaseNumber spec =
     (let hasDatabase = list_ex (\<lambda>tech. tech \<in> set [js ''PostgreSQL'', js ''MySQL'', js ''MongoDB''])
                          (suggested (technologies spec));
          hasCache = (js ''Redis'' \<in> set (suggested (technologies spec)));
          complexity = determineComplexity spec;
          isComplex = (complexity = js ''high'' \<or> length (requirements spec) > 3);
          architectureContent0 =
             js ''# Phase ''
             @ decimal phaseNumber
             @ js '': Architecture - ''
             @ projectName spec
             @ js ''

## System Architecture
```
Frontend (''
             @ (case find (\<lambda>t. t \<in> set [js ''React'', js ''Vue'', js ''Angular''])
              (suggested (technologies spec)) of
         Some t \<Rightarrow> t | None \<Rightarrow> js ''React'')
             @ js '')
    '' @ [0x2193] @ js ''
API Gateway
    '' @ [0x2193];
          architectureContent1 =
            (if isComplex then
               architectureContent0 @
               js ''
Microservices Architecture
    '' @ [0x251C, 0x2500, 0x2500] @ js '' Auth Service
    '' @ [0x251C, 0x2500, 0x2500] @ js '' Core Service
    '' @ [0x2514, 0x2500, 0x2500] @ js '' Notification Service''
             else
               architectureContent0 @
               js ''
Backend Service (''
               @ (case find (\<lambda>t. t \<in> set [js ''Node.js'', js ''Express''])
              (suggested (technologies spec)) of
         Some t \<Rightarrow> t | None \<Rightarrow> js ''Node.js'')
               @ js '')'');
          architectureContent2 =
            (if hasCache then
               architectureContent1 @
               js ''
    '' @ [0x2193] @ js ''
Cache Layer (Redis)''
             else architectureContent1);
          architectureContent3 =
            (if hasDatabase then
               (let dbTech =
                  (case find (\<lambda>t. t \<in> set [js ''PostgreSQL'', js ''MySQL'', js ''MongoDB''])
                          (suggested (technologies spec)) of
                     Some t \<Rightarrow> t | None \<Rightarrow> js ''PostgreSQL'')
                in architectureContent2 @
               js ''
    '' @ [0x2193] @ js ''
Database (''
               @ dbTech
               @ js '')'')
             else architectureContent2)
      in architectureContent3 @
             js ''
```

## Component Structure
''
             @ join (js ''\<newline>'')
         (map (\<lambda>tech. js ''- '' @ tech @ js '': '' @ getTechnologyDescription h tech)
            (suggested (technologies spec)))
             @ js ''

## Security Architecture
- Authentication: JWT tokens with refresh mechanism
- Authorization: Role-based access control (RBAC)
- Data encryption: AES-256 for sensitive data
- API security: Rate limiting, input validation, CORS

## Scalability Considerations
- Horizontal scaling capability
- Database connection pooling
- Caching strategy for frequently accessed data
- Load balancing across service instances
'')\<close>

definition generateRefinementContent :: "nat \<Rightarrow> StructuredSpec \<Rightarrow> jsstring" where
  \<open>generateRefinementContent phaseNumber spec =
     js ''# Phase ''
     @ decimal phaseNumber
     @ js '': Refinement - ''
     @ projectName spec
     @ js ''

## Test-Driven Development Plan
1. Write unit tests for core business logic
2. Create integration tests for API endpoints
3. Develop end-to-end tests for user workflows
4. Implement components to pass tests
5. Refactor for performance and maintainability

## Testing Strategy
### Unit Tests (Target: 90% coverage)
''
     @ join (js ''\<newline>'')
         (map (\<lambda>feature. js ''- '' @ feature @ js '' service tests
- '' @ feature @ js '' validation tests
- '' @ feature @ js '' error handling tests'')
            (features spec))
     @ js ''

### Integration Tests
''
     @ join (js ''\<newline>'')
         (map (\<lambda>feature. js ''- '' @ feature @ js '' API endpoint tests
- '' @ feature @ js '' database interaction tests'')
            (features spec))
     @ js ''

### End-to-End Tests
''
     @ join (js ''\<newline>'')
         (map (\<lambda>feature. js ''- '' @ feature @ js '' user workflow tests'')
            (features spec))
     @ js ''

## Performance Optimization
- Database query optimization
- Implement caching for frequently accessed data
- API response compression
- Frontend bundle optimization
- Image and asset optimization

## Code Quality Standards
- ESLint configuration for consistent code style
- Prettier for automatic code formatting
- TypeScript for type safety
- Code review process requirements
- Pre-commit hooks for quality checks

## Monitoring and Logging
- Application performance monitoring (APM)
- Error tracking and alerting
- User activity analytics
- System health metrics
- Audit trail for critical operations
''\<close>

definition generateCompletionContent :: "host \<Rightarrow> nat \<Rightarrow> StructuredSpec \<Rightarrow> jsstring" where
  \<open>generateCompletionContent h phaseNumber spec =
     js ''# Phase ''
     @ decimal phaseNumber
     @ js '': Completion - ''
     @ projectName spec
     @ js ''

## Deployment Strategy
### Environment Setup
- Development: Local development with hot reload
- Staging: Production-like environment for testing
- Production: High-availability deployment

### CI/CD Pipeline
1. Code commit triggers automated tests
2. Build and package application
3. Deploy to staging environment
4. Run integration and E2E tests
5. Deploy to production with blue-green strategy

### Infrastructure
- Containerization with Docker
- Orchestration with Kubernetes (if complex) or Docker Compose
- Cloud deployment (AWS/Azure/GCP)
- Database backup and recovery procedures

## Documentation
### Technical Documentation
- API documentation with OpenAPI/Swagger
- Database schema documentation
- Architecture decision records (ADRs)
- Deployment and operations guide

### User Documentation
- User guide for ''
     @ toLowerCase h (projectName spec)
     @ js ''
- FAQ and troubleshooting guide
- Feature tutorials and walkthroughs
- Getting started guide

## Maintenance and Support
### Monitoring
- Application performance metrics
- Error rate monitoring
- User engagement analytics
- System resource utilization

### Updates and Maintenance
- Regular security updates
- Feature enhancement roadmap
- Bug fix prioritization process
- User feedback integration

## Success Criteria Validation
''
     @ join (js ''\<newline>'')
         (map (\<lambda>(index, criteria). decimal (index + 1) @ js ''. '' @ [0x2705] @ js '' '' @ criteria)
            (indexed (acceptanceCriteria spec)))
     @ js ''

## Project Handover
- Code repository access and permissions
- Documentation and knowledge transfer
- Support contact information
- Maintenance schedule and procedures
''\<close>

subsection \<open>generatePhaseContent, generatePhase, generateAllPhases\<close>

text \<open>\<open>Array.prototype.indexOf\<close>: the first index, or \<open>-1\<close>.\<close>

fun indexOf :: "'a list \<Rightarrow> 'a \<Rightarrow> int" where
  "indexOf [] x = -1"
| "indexOf (y # ys) x =
     (if y = x then 0 else (let i = indexOf ys x in if i < 0 then -1 else i + 1))"

definition generatePhaseContent :: "host \<Rightarrow> jsstring \<Rightarrow> StructuredSpec \<Rightarrow> js_error + jsstring" where
  "generatePhaseContent h p spec =
     (let phaseNumber = nat (indexOf validPhases p + 1);
          phaseTitle = getPhaseTitle h p
      in if p = js ''specification'' then Inr (generateSpecificationContent phaseNumber spec)
         else if p = js ''pseudocode'' then Inr (generatePseudocodeContent phaseNumber spec)
         else if p = js ''architecture'' then Inr (generateArchitectureContent h phaseNumber spec)
         else if p = js ''refinement'' then Inr (generateRefinementContent phaseNumber spec)
         else if p = js ''completion'' then Inr (generateCompletionContent h phaseNumber spec)
         else Inl (Error (js ''Unknown phase: '' @ p)))"

text \<open>
  \<open>generatePhase\<close> calls \<open>this.generatePhaseContent\<close>, a method that the test suite
  replaces by one that rejects. The content generator is therefore an argument
  (\<open>gpc\<close>); the class as written passes \<open>generatePhaseContent h\<close>. \<open>now\<close> is what
  \<open>new Date().toISOString()\<close> returns in this call.
\<close>

definition generatePhase ::
  "(jsstring \<Rightarrow> StructuredSpec \<Rightarrow> js_error + jsstring) \<Rightarrow> jsstring \<Rightarrow> jsstring
     \<Rightarrow> StructuredSpec \<Rightarrow> js_error + SparcFile" where
  "generatePhase gpc now p spec =
     (if p \<notin> set validPhases then Inl (Error (js ''Invalid phase name''))
      else
        (case gpc p spec of
           Inl e \<Rightarrow> Inl e
         | Inr c \<Rightarrow>
             Inr \<lparr>phase = p, content = c,
                  metadata = \<lparr>generatedAt = now,
                               md_projectName = projectName spec,
                               md_complexity = determineComplexity spec,
                               md_phase = p,
                               md_technologies = suggested (technologies spec)\<rparr>\<rparr>))"

text \<open>
  The \<open>for\<close> loop over \<open>validPhases\<close>, with the array \<open>sparcFiles\<close> built so far; an
  exception leaves the loop. \<open>clock i\<close> is the time read in iteration \<open>i\<close>.
\<close>

fun phases_loop ::
  "(jsstring \<Rightarrow> StructuredSpec \<Rightarrow> js_error + jsstring) \<Rightarrow> (nat \<Rightarrow> jsstring)
     \<Rightarrow> StructuredSpec \<Rightarrow> jsstring list \<Rightarrow> SparcFile list \<Rightarrow> js_error + SparcFile list" where
  "phases_loop gpc clock spec [] sparcFiles = Inr sparcFiles"
| "phases_loop gpc clock spec (p # ps) sparcFiles =
     (case generatePhase gpc (clock (length sparcFiles)) p spec of
        Inl e \<Rightarrow> Inl e
      | Inr file \<Rightarrow> phases_loop gpc clock spec ps (sparcFiles @ [file]))"

definition generateAllPhases ::
  "(jsstring \<Rightarrow> StructuredSpec \<Rightarrow> js_error + jsstring) \<Rightarrow> (nat \<Rightarrow> jsstring)
     \<Rightarrow> StructuredSpec \<Rightarrow> js_error + SparcFile list" where
  "generateAllPhases gpc clock spec =
     (case phases_loop gpc clock spec validPhases [] of
        Inl e \<Rightarrow> Inl (Error (js ''Failed to generate SPARC documentation''))
      | Inr sparcFiles \<Rightarrow> Inr sparcFiles)"

subsection \<open>The scaffold files\<close>

text \<open>
  \<open>JSON.stringify(value, null, 2)\<close> of the two package manifests: the keys in the order
  of the object literal, two spaces of indentation per level, the two strings that
  come from the spec quoted by the host.
\<close>

definition generatePackageJson :: "host \<Rightarrow> StructuredSpec \<Rightarrow> jsstring" where
  \<open>generatePackageJson h spec =
     js ''{
  "name": '' @ quoteJSON h (replace_spaces (js ''-'') (toLowerCase h (projectName spec))) @ js '',
  "version": "1.0.0",
  "description": '' @ quoteJSON h (description spec) @ js '',
  "main": "src/index.tsx",
  "scripts": {
    "start": "react-scripts start",
    "build": "react-scripts build",
    "test": "react-scripts test",
    "eject": "react-scripts eject"
  },
  "dependencies": {
    "react": "^18.2.0",
    "react-dom": "^18.2.0",
    "react-scripts": "5.0.1",
    "typescript": "^4.9.5"
  },
  "devDependencies": {
    "@types/react": "^18.2.0",
    "@types/react-dom": "^18.2.0"
  }
}''\<close>

definition generateVuePackageJson :: "host \<Rightarrow> StructuredSpec \<Rightarrow> jsstring" where
  \<open>generateVuePackageJson h spec =
     js ''{
  "name": '' @ quoteJSON h (replace_spaces (js ''-'') (toLowerCase h (projectName spec))) @ js '',
  "version": "1.0.0",
  "description": '' @ quoteJSON h (description spec) @ js '',
  "scripts": {
    "serve": "vue-cli-service serve",
    "build": "vue-cli-service build",
    "test": "vue-cli-service test:unit"
  },
  "dependencies": {
    "vue": "^3.3.0"
  },
  "devDependencies": {
    "@vue/cli-service": "~5.0.0",
    "typescript": "^4.9.5"
  }
}''\<close>

definition generateReactApp :: "StructuredSpec \<Rightarrow> jsstring" where
  \<open>generateReactApp spec =
     js ''import React from 'react';
import './App.css';
\<newline>function App() {
  return (
    <div className="App">
      <header className="App-header">
        <h1>''
     @ projectName spec
     @ js ''</h1>
        <p>''
     @ description spec
     @ js ''</p>
      </header>
      <main>
        {/* Features to implement: */}
        ''
     @ join ([])
         (map (\<lambda>feature. js ''
        <section>
          <h2>'' @ feature @ js ''</h2>
          <p>Implementation for '' @ feature @ js '' goes here</p>
        </section>'')
            (features spec))
     @ js ''
      </main>
    </div>
  );
}

export default App;''\<close>

definition generateVueApp :: "StructuredSpec \<Rightarrow> jsstring" where
  \<open>generateVueApp spec =
     js ''<template>
  <div id="app">
    <header>
      <h1>''
     @ projectName spec
     @ js ''</h1>
      <p>''
     @ description spec
     @ js ''</p>
    </header>
    <main>
      <!-- Features to implement: -->
      ''
     @ join ([])
         (map (\<lambda>feature. js ''
      <section>
        <h2>'' @ feature @ js ''</h2>
        <p>Implementation for '' @ feature @ js '' goes here</p>
      </section>'')
            (features spec))
     @ js ''
    </main>
  </div>
</template>

<script lang="ts">
import { defineComponent } from 'vue';

export default defineComponent({
  name: 'App',
  data() {
    return {
      projectName: '' @ [0x27]
     @ projectName spec
     @ js ''',
      description: '' @ [0x27]
     @ description spec
     @ js '''
    };
  }
});
</script>''\<close>

definition generateVanillaIndex :: "StructuredSpec \<Rightarrow> jsstring" where
  \<open>generateVanillaIndex spec =
     js ''<!DOCTYPE html>
<html lang="en">
<head>
    <meta charset="UTF-8">
    <meta name="viewport" content="width=device-width, initial-scale=1.0">
    <title>''
     @ projectName spec
     @ js ''</title>
</head>
<body>
    <header>
        <h1>''
     @ projectName spec
     @ js ''</h1>
        <p>''
     @ description spec
     @ js ''</p>
    </header>
    <main>
        ''
     @ join ([])
         (map (\<lambda>feature. js ''
        <section>
            <h2>'' @ feature @ js ''</h2>
            <p>Implementation for '' @ feature @ js '' goes here</p>
        </section>'')
            (features spec))
     @ js ''
    </main>
</body>
</html>''\<close>

definition generateComponentIndex :: "StructuredSpec \<Rightarrow> jsstring" where
  \<open>generateComponentIndex spec =
     js ''// Component exports for ''
     @ projectName spec
     @ js ''
''
     @ join (js ''\<newline>'')
         (map (\<lambda>feature. (let componentName = replace_spaces [] feature in js ''export { default as '' @ componentName @ js '' } from './'' @ componentName @ js ''';''))
            (features spec))
     @ js ''
''\<close>

definition generateTestSetup :: "jsstring \<Rightarrow> jsstring" where
  \<open>generateTestSetup framework =
     js ''// Test setup for ''
     @ framework
     @ js ''
import '@testing-library/jest-dom';

// Setup test environment
beforeEach(() => {
  // Reset test state
});

afterEach(() => {
  // Cleanup after each test
});
''\<close>

definition generateFeatureTest :: "jsstring \<Rightarrow> jsstring \<Rightarrow> jsstring" where
  \<open>generateFeatureTest feature framework =
     (let componentName = replace_spaces [] feature in
     js ''import { render, screen } from '@testing-library/react';
import { ''
     @ componentName
     @ js '' } from '../src/components';

describe('' @ [0x27]
     @ feature
     @ js ''', () => {
  it('should render ''
     @ feature
     @ js '' component', () => {
    render(<''
     @ componentName
     @ js '' />);
    expect(screen.getByText('' @ [0x27]
     @ feature
     @ js ''')).toBeInTheDocument();
  });

  it('should handle ''
     @ feature
     @ js '' functionality', () => {
    // Test implementation here
    expect(true).toBe(true);
  });
});
'')\<close>

definition generateReadme :: "StructuredSpec \<Rightarrow> jsstring" where
  \<open>generateReadme spec =
     js ''# ''
     @ projectName spec
     @ js ''

''
     @ description spec
     @ js ''

## Features

''
     @ join (js ''\<newline>'')
         (map (\<lambda>feature. js ''- '' @ feature)
            (features spec))
     @ js ''

## Technologies

''
     @ join (js ''\<newline>'')
         (map (\<lambda>tech. js ''- '' @ tech)
            (suggested (technologies spec)))
     @ js ''

## Getting Started

1. Install dependencies:
   ```bash
   npm install
   ```

2. Start development server:
   ```bash
   npm start
   ```

3. Run tests:
   ```bash
   npm test
   ```

## Requirements

''
     @ join (js ''\<newline>'')
         (map (\<lambda>req. js ''- '' @ req)
            (requirements spec))
     @ js ''

## Constraints

''
     @ join (js ''\<newline>'')
         (map (\<lambda>constraint. js ''- '' @ constraint)
            (constraints spec))
     @ js ''

## License

MIT
''\<close>

definition generateContributing :: jsstring where
  \<open>generateContributing =
     js ''# Contributing Guide

Thank you for your interest in contributing!

## Development Process

1. Fork the repository
2. Create a feature branch
3. Make your changes
4. Write tests
5. Submit a pull request

## Code Standards

- Follow existing code style
- Write comprehensive tests
- Update documentation
- Follow SPARC methodology

## Testing

Run the test suite before submitting:

```bash
npm test
```

## Questions?

Open an issue for any questions or concerns.
''\<close>

subsection \<open>generate\<close>

definition generateFrameworkFiles :: "host \<Rightarrow> jsstring \<Rightarrow> StructuredSpec \<Rightarrow> GeneratedFile list" where
  "generateFrameworkFiles h framework spec =
     (if framework = js ''react'' then
        [\<lparr>file_name = js ''package.json'', file_content = generatePackageJson h spec,
          file_type = js ''configuration''\<rparr>,
         \<lparr>file_name = js ''src/App.tsx'', file_content = generateReactApp spec,
          file_type = js ''component''\<rparr>,
         \<lparr>file_name = js ''src/components/index.ts'', file_content = generateComponentIndex spec,
          file_type = js ''index''\<rparr>]
      else if framework = js ''vue'' then
        [\<lparr>file_name = js ''package.json'', file_content = generateVuePackageJson h spec,
          file_type = js ''configuration''\<rparr>,
         \<lparr>file_name = js ''src/App.vue'', file_content = generateVueApp spec,
          file_type = js ''component''\<rparr>]
      else
        [\<lparr>file_name = js ''index.html'', file_content = generateVanillaIndex spec,
          file_type = js ''html''\<rparr>])"

definition generateTestFiles :: "host \<Rightarrow> jsstring \<Rightarrow> StructuredSpec \<Rightarrow> GeneratedFile list" where
  "generateTestFiles h framework spec =
     [\<lparr>file_name = js ''tests/setup.ts'', file_content = generateTestSetup framework,
       file_type = js ''test''\<rparr>]
     @ map (\<lambda>feature.
          \<lparr>file_name = js ''tests/'' @ replace_spaces (js ''-'') (toLowerCase h feature)
                         @ js ''.test.ts'',
           file_content = generateFeatureTest feature framework,
           file_type = js ''test''\<rparr>)
         (features spec)"

definition generateDocumentationFiles :: "StructuredSpec \<Rightarrow> GeneratedFile list" where
  "generateDocumentationFiles spec =
     [\<lparr>file_name = js ''README.md'', file_content = generateReadme spec,
       file_type = js ''documentation''\<rparr>,
      \<lparr>file_name = js ''CONTRIBUTING.md'', file_content = generateContributing,
       file_type = js ''documentation''\<rparr>]"

text \<open>
  \<open>a || b\<close> where \<open>a\<close> is a string or a boolean that may be absent: \<open>a\<close> if it is
  truthy (a non-empty string, \<open>true\<close>), else \<open>b\<close>.
\<close>

definition or_string :: "jsstring option \<Rightarrow> jsstring \<Rightarrow> jsstring" where
  "or_string a b = (case a of Some s \<Rightarrow> (if s = [] then b else s) | None \<Rightarrow> b)"

definition or_bool :: "bool option \<Rightarrow> bool \<Rightarrow> bool" where
  "or_bool a b = (case a of Some v \<Rightarrow> (if v then v else b) | None \<Rightarrow> b)"

text \<open>\<open>spec.requestMetadata?.field\<close>: absent when the metadata is.\<close>

definition optional_field :: "'m option \<Rightarrow> ('m \<Rightarrow> 'a option) \<Rightarrow> 'a option" where
  "optional_field m f = (case m of None \<Rightarrow> None | Some r \<Rightarrow> f r)"

text \<open>
  The \<open>forEach\<close> over the SPARC files: the variables \<open>specification\<close> and
  \<open>architecture\<close> (\<open>spc\<close> and \<open>arch\<close> here) take the
  content of the file of that phase (the last one, were there several), and every
  file is pushed as a documentation file.
\<close>

fun sparc_forEach ::
  "SparcFile list \<Rightarrow> GeneratedFile list \<times> jsstring \<times> jsstring
     \<Rightarrow> GeneratedFile list \<times> jsstring \<times> jsstring" where
  "sparc_forEach [] st = st"
| "sparc_forEach (sparcFile # rest) (fs, spc, arch) =
     sparc_forEach rest
       (fs @ [\<lparr>file_name = phase sparcFile @ js ''.md'', file_content = content sparcFile,
                file_type = js ''documentation''\<rparr>],
        (if phase sparcFile = js ''specification'' then content sparcFile else spc),
        (if phase sparcFile = js ''specification'' then arch
         else if phase sparcFile = js ''architecture'' then content sparcFile else arch))"

text \<open>
  \<open>generate(spec)\<close>, the spec being the structured spec with its optional
  \<open>requestMetadata\<close>. A failure of \<open>generateAllPhases\<close> is the only exception that can
  reach the handler, which re-throws it with a prefix.
\<close>

definition generate ::
  "(jsstring \<Rightarrow> StructuredSpec \<Rightarrow> js_error + jsstring) \<Rightarrow> host \<Rightarrow> (nat \<Rightarrow> jsstring)
     \<Rightarrow> StructuredSpec \<Rightarrow> RequestMetadata option \<Rightarrow> js_error + GenerateOutput" where
  "generate gpc h clock spec requestMetadata =
     (case generateAllPhases gpc clock spec of
        Inl (Error message) \<Rightarrow> Inl (Error (js ''SPARC generation failed: '' @ message))
      | Inr sparcFiles \<Rightarrow>
          (let framework = or_string (optional_field requestMetadata req_framework) (js ''react'');
               includeTests = or_bool (optional_field requestMetadata req_includeTests) True;
               includeDocs = or_bool (optional_field requestMetadata req_includeDocs) True;
               (files0, spec_text, arch_text) = sparc_forEach sparcFiles ([], [], []);
               files1 = files0 @ generateFrameworkFiles h framework spec;
               files2 = (if includeTests then files1 @ generateTestFiles h framework spec
                         else files1);
               files3 = (if includeDocs then files2 @ generateDocumentationFiles spec
                         else files2)
           in Inr \<lparr>out_files = files3, out_specification = spec_text,
                   out_architecture = arch_text\<rparr>))"

section \<open>The wording of the specification\<close>

text \<open>
  The rule table of the categorizer as the specification lists it: three guarded
  results, tried in order on the lower-cased input, and a default.
\<close>

definition rule1_keywords :: "jsstring list" where
  "rule1_keywords = [js ''e-commerce'', js ''shopping'', js ''payment'']"

definition rule2_keywords :: "jsstring list" where
  "rule2_keywords = [js ''microservices'', js ''financial trading'']"

definition category_rules :: "((jsstring \<Rightarrow> bool) \<times> ProjectCategory) list" where
  "category_rules =
     [(\<lambda>t. list_ex (str_includes t) rule1_keywords,
       \<lparr>cat_type = js ''e-commerce'', cat_complexity = js ''high''\<rparr>),
      (\<lambda>t. list_ex (str_includes t) rule2_keywords,
       \<lparr>cat_type = js ''microservices'', cat_complexity = js ''enterprise''\<rparr>),
      (\<lambda>t. str_includes t (js ''todo'') \<and> length t < 50,
       \<lparr>cat_type = js ''utility'', cat_complexity = js ''low''\<rparr>)]"

definition default_category :: ProjectCategory where
  "default_category = \<lparr>cat_type = js ''web-application'', cat_complexity = js ''medium''\<rparr>"

fun first_match :: "(('a \<Rightarrow> bool) \<times> 'b) list \<Rightarrow> 'b \<Rightarrow> 'a \<Rightarrow> 'b" where
  "first_match [] d t = d"
| "first_match ((p, r) # rules) d t = (if p t then r else first_match rules d t)"

text \<open>
  A list with its duplicates removed, each element staying where it first occurs:
  the head is kept and its later copies are deleted.
\<close>

fun first_occurrences :: "'a list \<Rightarrow> 'a list" where
  "first_occurrences [] = []"
| "first_occurrences (x # xs) = x # first_occurrences (filter (\<lambda>y. y \<noteq> x) xs)"


text \<open>
  Tag-like markup: \<open>/<[^>]*>/\<close> matches somewhere in the string, that is, some \<open><\<close> has
  a \<open>>\<close> behind it.
\<close>

fun tag_like :: "jsstring \<Rightarrow> bool" where
  "tag_like [] = False"
| "tag_like (c # s) = ((c = 0x3C \<and> 0x3E \<in> set s) \<or> tag_like s)"

text \<open>
  The parts of a script element as the script pattern reads them: a tag name is the
  literal up to the case of its letters, and the closing tag is the first one behind
  the body (\<open>closes_first body cls\<close>: no closing tag begins inside \<open>body\<close> when
  \<open>cls\<close> follows it).
\<close>

definition same_ignoring_case :: "jsstring \<Rightarrow> jsstring \<Rightarrow> bool" where
  "same_ignoring_case s t = (map canonicalize s = map canonicalize t)"

fun closes_first :: "jsstring \<Rightarrow> jsstring \<Rightarrow> bool" where
  "closes_first [] cls = True"
| "closes_first (c # body) cls =
     (\<not> ci_prefix (js ''</script>'') (c # body @ cls) \<and> closes_first body cls)"

text \<open>
  The heading \<open># Phase {N}: {Title} - {projectName}\<close>, and the titles in the order of
  the phases.
\<close>

definition phase_heading :: "nat \<Rightarrow> jsstring \<Rightarrow> jsstring \<Rightarrow> jsstring" where
  "phase_heading n title name = js ''# Phase '' @ decimal n @ js '': '' @ title @ js '' - '' @ name"

definition phase_titles :: "jsstring list" where
  "phase_titles =
     [js ''Specification'', js ''Pseudocode'', js ''Architecture'', js ''Refinement'',
      js ''Completion'']"

text \<open>
  The file that \<open>generatePhase\<close> builds around a content, and the content that the class
  as written generates for a phase.
\<close>

definition sparc_file :: "jsstring \<Rightarrow> StructuredSpec \<Rightarrow> jsstring \<Rightarrow> jsstring \<Rightarrow> SparcFile" where
  "sparc_file now spec p c =
     \<lparr>phase = p, content = c,
      metadata = \<lparr>generatedAt = now,
                   md_projectName = projectName spec,
                   md_complexity = determineComplexity spec,
                   md_phase = p,
                   md_technologies = suggested (technologies spec)\<rparr>\<rparr>"

definition phase_content :: "host \<Rightarrow> StructuredSpec \<Rightarrow> jsstring \<Rightarrow> jsstring" where
  "phase_content h spec p = projr (generatePhaseContent h p spec)"

text \<open>
  The lines of the component list of the architecture document, one for each suggested
  technology.
\<close>

definition component_lines :: "host \<Rightarrow> StructuredSpec \<Rightarrow> jsstring list" where
  "component_lines h spec =
     map (\<lambda>tech. js ''- '' @ tech @ js '': '' @ getTechnologyDescription h tech)
       (suggested (technologies spec))"

text \<open>
  The values of the worked examples: the structured spec of the input
  \<open>Create a simple blog application with user authentication\<close>, a clock, and a content
  generator that rejects in the refinement phase, as the mock of the test suite does in
  every phase.
\<close>

definition example_spec :: StructuredSpec where
  "example_spec =
     \<lparr>projectName = js ''Blog Application'',
      description = js ''A comprehensive application featuring blog application, user authentication'',
      features = [js ''blog application'', js ''user authentication''],
      technologies = \<lparr>suggested = [js ''React'', js ''Node.js''], alternatives = []\<rparr>,
      requirements = [],
      constraints = [],
      acceptanceCriteria =
        [js ''User should be able to use blog application successfully'',
         js ''User should be able to use user authentication successfully''],
      estimatedTimeline =
        \<lparr>phases = [js ''Planning'', js ''Development'', js ''Testing'', js ''Deployment''],
         totalWeeks = 8\<rparr>\<rparr>"

definition example_clock :: "nat \<Rightarrow> jsstring" where
  "example_clock i = js ''2024-01-01T00:00:0'' @ decimal i @ js ''.000Z''"

definition failing_refinement :: "jsstring \<Rightarrow> StructuredSpec \<Rightarrow> js_error + jsstring" where
  "failing_refinement p spec =
     (if p = js ''refinement'' then Inl (Error (js ''AI service failed''))
      else generatePhaseContent ascii_host p spec)"

section \<open>Properties\<close>

subsection \<open>Literals\<close>

lemma unat_of_char: "unat (of_char c :: 16 word) = of_char c"
proof -
  have "(of_char c :: 16 word) = of_nat (of_char c)" by (simp add: of_nat_of_char)
  then have "unat (of_char c :: 16 word) = of_char c mod 2 ^ 16"
    by (simp only: unat_of_nat) simp
  moreover have "(of_char c :: nat) < 256" by simp
  ultimately show ?thesis by simp
qed

lemma of_char_word_inject: "((of_char c :: 16 word) = of_char d) = (c = d)"
proof
  assume "(of_char c :: 16 word) = of_char d"
  then have "unat (of_char c :: 16 word) = unat (of_char d :: 16 word)" by simp
  then show "c = d" by (simp add: unat_of_char)
qed simp

lemma js_inject: "(js s = js t) = (s = t)"
  unfolding js_def by (rule inj_map_eq_map) (simp add: inj_on_def of_char_word_inject)

subsection \<open>categorizeProject\<close>

text \<open>
  C3, as the specification states it: rule 3 gives (utility, low) to an input that
  contains "todo" and whose total length is below 50. The code tests the length of
  the lower-cased input, and lower-casing may lengthen a string: the input below
  contains "todo" and no keyword of rules 1 and 2 and has 49 code units, its lower
  case has 50, and the result is (web-application, medium).
\<close>

theorem C3_counterexample:
  "length (js ''todo '' @ [0x0130] @ replicate 43 0x78) < 50
   \<and> str_includes (js ''todo '' @ [0x0130] @ replicate 43 0x78) (js ''todo'')
   \<and> \<not> list_ex (str_includes (toLowerCase dotted_host
             (js ''todo '' @ [0x0130] @ replicate 43 0x78))) rule1_keywords
   \<and> \<not> list_ex (str_includes (toLowerCase dotted_host
             (js ''todo '' @ [0x0130] @ replicate 43 0x78))) rule2_keywords
   \<and> length (toLowerCase dotted_host (js ''todo '' @ [0x0130] @ replicate 43 0x78)) = 50
   \<and> categorizeProject dotted_host (js ''todo '' @ [0x0130] @ replicate 43 0x78)
       = \<lparr>cat_type = js ''web-application'', cat_complexity = js ''medium''\<rparr>
   \<and> categorizeProject dotted_host (js ''todo '' @ [0x0130] @ replicate 43 0x78)
       \<noteq> \<lparr>cat_type = js ''utility'', cat_complexity = js ''low''\<rparr>"
  by code_simp

text \<open>
  C3, amended: for every input, \<open>categorizeProject\<close> returns the result of the first of
  the four rules, in their fixed order, that the lower-cased input matches: one of
  "e-commerce", "shopping", "payment" present gives (e-commerce, high); else one of
  "microservices", "financial trading" present gives (microservices, enterprise); else
  "todo" present and the length of the lower-cased input below 50 gives (utility,
  low); else (web-application, medium). An input that has a keyword of rule 1 and a
  keyword of rule 2 resolves to (e-commerce, high).
\<close>

theorem C3_categorize_amended:
  "categorizeProject h input
     = first_match category_rules default_category (toLowerCase h input)
   \<and> (list_ex (str_includes (toLowerCase h input)) rule1_keywords
        \<and> list_ex (str_includes (toLowerCase h input)) rule2_keywords
      \<longrightarrow> categorizeProject h input
            = \<lparr>cat_type = js ''e-commerce'', cat_complexity = js ''high''\<rparr>)"
  by (simp add: categorizeProject_def category_rules_def default_category_def
      rule1_keywords_def rule2_keywords_def Let_def)

theorem C3_categorize_amended_witness:
  "categorizeProject ascii_host (js ''Online SHOPPING on microservices'')
     = \<lparr>cat_type = js ''e-commerce'', cat_complexity = js ''high''\<rparr>"
proof -
  let ?t = "toLowerCase ascii_host (js ''Online SHOPPING on microservices'')"
  have r1: "list_ex (str_includes ?t) rule1_keywords" by code_simp
  have r2: "list_ex (str_includes ?t) rule2_keywords" by code_simp
  from C3_categorize_amended [of ascii_host "js ''Online SHOPPING on microservices''"] r1 r2
  show ?thesis by blast
qed

text \<open>The two examples of the specification.\<close>

lemma categorize_examples:
  "categorizeProject ascii_host (js ''Build an e-commerce store'')
     = \<lparr>cat_type = js ''e-commerce'', cat_complexity = js ''high''\<rparr>"
  "categorizeProject ascii_host (js ''Todo app'')
     = \<lparr>cat_type = js ''utility'', cat_complexity = js ''low''\<rparr>"
  by code_simp+

text \<open>
  Where lower-casing keeps the length of a string, as it does on ASCII text, the length
  that rule 3 tests is the length of the input.
\<close>

lemma ascii_host_length: "length (toLowerCase ascii_host input) = length input"
  by (simp add: ascii_host_def)

subsection \<open>suggestTechnologies\<close>

lemma foldl_set_add:
  "foldl set_add acc xs = acc @ first_occurrences (filter (\<lambda>y. y \<notin> set acc) xs)"
proof (induction xs arbitrary: acc)
  case Nil
  show ?case by simp
next
  case (Cons x xs)
  show ?case
  proof (cases "x \<in> set acc")
    case True
    then show ?thesis using Cons.IH [of acc] by (simp add: set_add_def)
  next
    case False
    have "filter (\<lambda>y. y \<noteq> x) (filter (\<lambda>y. y \<notin> set acc) xs)
            = filter (\<lambda>y. y \<notin> set (acc @ [x])) xs"
      by (induction xs) auto
    with False show ?thesis using Cons.IH [of "acc @ [x]"] by (simp add: set_add_def)
  qed
qed

lemma new_Set_first_occurrences: "new_Set xs = first_occurrences xs"
  by (simp add: new_Set_def foldl_set_add)

lemma set_first_occurrences: "set (first_occurrences xs) = set xs"
  by (induction xs rule: first_occurrences.induct) auto

lemma distinct_first_occurrences: "distinct (first_occurrences xs)"
  by (induction xs rule: first_occurrences.induct) (auto simp: set_first_occurrences)

text \<open>
  The same list, by the library's \<open>remdups\<close>, which keeps the last copy of an
  element: reverse, remove the duplicates, reverse.
\<close>

lemma remdups_snoc: "remdups (ys @ [x]) = filter (\<lambda>y. y \<noteq> x) (remdups ys) @ [x]"
  by (induction ys) auto

lemma first_occurrences_remdups: "first_occurrences xs = rev (remdups (rev xs))"
  by (induction xs rule: first_occurrences.induct)
    (simp_all add: remdups_snoc rev_filter remdups_filter)

text \<open>
  C4: for every input, \<open>technologies.suggested\<close> of the structured spec is the list
  "React", "Node.js", then "PostgreSQL", "Redis" exactly when the complexity of the
  project category is high or enterprise, then the extracted technologies, with
  duplicates removed so that each element stays at its first occurrence.
\<close>

theorem C4_suggested:
  "\<exists>spec. generateStructuredSpec h input = Inr spec
     \<and> suggested (technologies spec)
         = first_occurrences
             ([js ''React'', js ''Node.js'']
              @ (if cat_complexity (categorizeProject h input) = js ''high''
                    \<or> cat_complexity (categorizeProject h input) = js ''enterprise''
                 then [js ''PostgreSQL'', js ''Redis''] else [])
              @ ent_technologies (extractEntities h input))
     \<and> distinct (suggested (technologies spec))"
  by (simp add: generateStructuredSpec_def suggestTechnologies_def Let_def
      new_Set_first_occurrences distinct_first_occurrences del: first_occurrences.simps)

text \<open>An input that names two technologies the base list and the category already give.\<close>

lemma suggested_example:
  "map_sum id (\<lambda>spec. suggested (technologies spec))
     (generateStructuredSpec ascii_host (js ''A shopping site built with React and Redis''))
   = Inr [js ''React'', js ''Node.js'', js ''PostgreSQL'', js ''Redis'']"
  by code_simp

subsection \<open>validateInput\<close>

lemma trim_eq_Nil: "(trim s = []) = list_all isWhiteSpace s"
proof
  assume "trim s = []"
  then have all: "\<forall>x\<in>set (dropWhile isWhiteSpace s). isWhiteSpace x"
    by (simp add: trim_def dropWhile_eq_Nil_conv)
  have "dropWhile isWhiteSpace s = []"
  proof (rule ccontr)
    assume ne: "dropWhile isWhiteSpace s \<noteq> []"
    then have "\<not> isWhiteSpace (hd (dropWhile isWhiteSpace s))" by (rule hd_dropWhile)
    moreover from ne have "hd (dropWhile isWhiteSpace s) \<in> set (dropWhile isWhiteSpace s)"
      by simp
    ultimately show False using all by blast
  qed
  then show "list_all isWhiteSpace s"
    by (simp add: dropWhile_eq_Nil_conv list_all_iff)
next
  assume "list_all isWhiteSpace s"
  then have d: "dropWhile isWhiteSpace s = []"
    by (simp add: dropWhile_eq_Nil_conv list_all_iff)
  show "trim s = []" by (simp add: trim_def d)
qed

text \<open>Past the guard for empty input the three checks accumulate their messages.\<close>

lemma validateInput_checked:
  assumes "\<not> list_all isWhiteSpace input"
  shows "validateInput input =
     \<lparr>isValid = (length input \<ge> MIN_LENGTH \<and> length input \<le> MAX_LENGTH
                   \<and> \<not> (str_includes input [0xFFFD] \<or> \<not> encoding_pattern input)),
      errors = (if length input < MIN_LENGTH
                then [js ''Input must be at least 10 characters''] else [])
             @ (if length input > MAX_LENGTH
                then [js ''Input exceeds maximum length of 10000 characters''] else [])
             @ (if str_includes input [0xFFFD] \<or> \<not> encoding_pattern input
                then [js ''Invalid character encoding detected''] else []),
      sanitizedInput = Some (sanitizeInput input)\<rparr>"
proof -
  from assms have "input \<noteq> []" by auto
  moreover from assms have "trim input \<noteq> []" by (simp add: trim_eq_Nil)
  ultimately show ?thesis
    by (auto simp: validateInput_def Let_def)
qed

text \<open>
  Every code unit lies in one of the two ranges of the pattern, so the pattern accepts
  every string, and the encoding check comes down to the replacement character.
\<close>

lemma encoding_pattern_always: "encoding_pattern input"
proof -
  have "\<And>c :: 16 word. c \<le> 0x7F \<or> (0x80 \<le> c \<and> c \<le> 0xFFFF)"
  proof -
    fix c :: "16 word"
    have "unat c < 2 ^ 16" using unsigned_less [of c] by simp
    then have "c \<le> 0xFFFF" by (simp add: word_le_nat_alt)
    moreover have "c \<le> 0x7F \<or> 0x80 \<le> c" by (simp add: word_le_nat_alt) arith
    ultimately show "c \<le> 0x7F \<or> (0x80 \<le> c \<and> c \<le> 0xFFFF)" by blast
  qed
  then show ?thesis by (simp add: encoding_pattern_def list_all_iff)
qed

lemma str_includes_single: "str_includes s [c] = (c \<in> set s)"
  by (induction s) auto

lemma encoding_error_iff_replacement_character:
  "\<not> list_all isWhiteSpace input \<Longrightarrow>
     (js ''Invalid character encoding detected'' \<in> set (errors (validateInput input)))
       = (0xFFFD \<in> set input)"
  by (simp add: validateInput_checked js_inject encoding_pattern_always str_includes_single)

text \<open>
  C7, as the specification states it: for all strings longer than 10000 characters the
  result of \<open>validateInput\<close> includes the error "Input exceeds maximum length of 10000
  characters" and its \<open>sanitizedInput\<close> is populated. A string of 10001 spaces is longer
  than 10000 characters and takes the guard for empty input: the only error is "Input
  is required" and \<open>sanitizedInput\<close> is absent.
\<close>

theorem C7_counterexample:
  "length (replicate 10001 (0x20 :: 16 word)) > 10000
   \<and> js ''Input exceeds maximum length of 10000 characters''
        \<notin> set (errors (validateInput (replicate 10001 0x20)))
   \<and> sanitizedInput (validateInput (replicate 10001 0x20)) = None"
proof -
  have "trim (replicate 10001 (0x20 :: 16 word)) = []"
    by (simp add: trim_eq_Nil list_all_iff isWhiteSpace_def)
  then show ?thesis
    by (simp add: validateInput_def js_inject)
qed

text \<open>
  C7, amended: for all strings longer than 10000 characters that are not made of white
  space only (so that the guard for empty input is not taken), the result of
  \<open>validateInput\<close> includes the error "Input exceeds maximum length of 10000
  characters", and \<open>sanitizedInput\<close> is populated with the sanitized input. The
  instance is the oversized input of the test fixtures, 50000 times the letter A.
\<close>

theorem C7_amended:
  "length input > 10000 \<Longrightarrow> \<not> list_all isWhiteSpace input \<Longrightarrow>
     js ''Input exceeds maximum length of 10000 characters'' \<in> set (errors (validateInput input))
     \<and> sanitizedInput (validateInput input) = Some (sanitizeInput input)"
  by (simp add: validateInput_checked MAX_LENGTH_def)

theorem C7_amended_witness:
  "js ''Input exceeds maximum length of 10000 characters''
      \<in> set (errors (validateInput (replicate 50000 0x41)))
   \<and> sanitizedInput (validateInput (replicate 50000 0x41))
      = Some (sanitizeInput (replicate 50000 0x41))"
proof -
  have ws: "\<not> list_all isWhiteSpace (replicate 50000 (0x41 :: 16 word))"
    by (simp add: list_all_iff isWhiteSpace_def isLineTerminator_def)
  have len: "length (replicate 50000 (0x41 :: 16 word)) > 10000" by simp
  from C7_amended [OF len ws] show ?thesis .
qed



subsection \<open>sanitizeInput\<close>

lemma tag_like_iff: "tag_like s = (\<exists>a b c. s = a @ 0x3C # b @ 0x3E # c)"
proof (induction s)
  case Nil
  show ?case by simp
next
  case (Cons x s)
  show ?case
  proof
    assume "tag_like (x # s)"
    then consider "x = 0x3C" "0x3E \<in> set s" | "tag_like s" by auto
    then show "\<exists>a b c. x # s = a @ 0x3C # b @ 0x3E # c"
    proof cases
      case 1
      from 1(2) obtain b c where "s = b @ 0x3E # c" by (auto simp: in_set_conv_decomp)
      with 1(1) have "x # s = [] @ 0x3C # b @ 0x3E # c" by simp
      then show ?thesis by blast
    next
      case 2
      with Cons.IH obtain a b c where "s = a @ 0x3C # b @ 0x3E # c" by blast
      then have "x # s = (x # a) @ 0x3C # b @ 0x3E # c" by simp
      then show ?thesis by blast
    qed
  next
    assume "\<exists>a b c. x # s = a @ 0x3C # b @ 0x3E # c"
    then obtain a b c where eq: "x # s = a @ 0x3C # b @ 0x3E # c" by blast
    show "tag_like (x # s)"
    proof (cases a)
      case Nil
      with eq show ?thesis by auto
    next
      case (Cons y a')
      with eq have "s = a' @ 0x3C # b @ 0x3E # c" by simp
      with Cons.IH show ?thesis by auto
    qed
  qed
qed

lemma tag_like_infix: "tag_like s \<Longrightarrow> tag_like (p @ s @ q)"
proof -
  assume "tag_like s"
  then obtain a b c where "s = a @ 0x3C # b @ 0x3E # c" by (auto simp: tag_like_iff)
  then have "p @ s @ q = (p @ a) @ 0x3C # b @ 0x3E # (c @ q)" by simp
  then show ?thesis unfolding tag_like_iff by blast
qed

lemma trim_infix: "\<exists>p q. s = p @ trim s @ q"
proof -
  let ?t = "dropWhile isWhiteSpace s"
  have "s = takeWhile isWhiteSpace s @ ?t" by simp
  moreover have "?t = rev (dropWhile isWhiteSpace (rev ?t)) @ rev (takeWhile isWhiteSpace (rev ?t))"
    by (metis rev_append rev_rev_ident takeWhile_dropWhile_id)
  ultimately have "s = takeWhile isWhiteSpace s @ trim s @ rev (takeWhile isWhiteSpace (rev ?t))"
    by (simp add: trim_def)
  then show ?thesis by blast
qed

lemma tag_like_trim: "tag_like (trim s) \<Longrightarrow> tag_like s"
proof -
  assume t: "tag_like (trim s)"
  obtain p q where "s = p @ trim s @ q" using trim_infix by blast
  with tag_like_infix [OF t, of p q] show ?thesis by simp
qed

lemma set_tl_subset: "set (tl xs) \<subseteq> set xs"
  by (cases xs) auto

lemma set_dropWhile_subset: "set (dropWhile P xs) \<subseteq> set xs"
  by (auto dest: set_dropWhileD)

lemma set_replace_tags: "set (replace_tags s) \<subseteq> set s"
proof (induction s rule: replace_tags.induct)
  case 1
  show ?case by simp
next
  case (2 c s)
  show ?case
  proof (cases "c = 0x3C \<and> 0x3E \<in> set s")
    case True
    have "set (tl (dropWhile (\<lambda>d. d \<noteq> 0x3E) s)) \<subseteq> set s"
      by (rule subset_trans [OF set_tl_subset set_dropWhile_subset])
    with True 2(1) show ?thesis by auto
  next
    case False
    with 2(2) show ?thesis by auto
  qed
qed

text \<open>
  After the second replacement no \<open><\<close> has a \<open>>\<close> behind it: where the scan keeps a
  \<open><\<close>, no \<open>>\<close> follows in the input, and none can appear in what follows.
\<close>

lemma replace_tags_no_tag: "\<not> tag_like (replace_tags s)"
proof (induction s rule: replace_tags.induct)
  case 1
  show ?case by simp
next
  case (2 c s)
  show ?case
  proof (cases "c = 0x3C \<and> 0x3E \<in> set s")
    case True
    with 2(1) show ?thesis by simp
  next
    case False
    then have "\<not> (c = 0x3C \<and> 0x3E \<in> set (replace_tags s))"
      using set_replace_tags [of s] by auto
    with False 2(2) show ?thesis by auto
  qed
qed

lemma sanitizeInput_no_tag: "\<not> tag_like (sanitizeInput input)"
  unfolding sanitizeInput_def using replace_tags_no_tag tag_like_trim by blast

lemma dropWhile_id_hd: "s \<noteq> [] \<Longrightarrow> \<not> P (hd s) \<Longrightarrow> dropWhile P s = s"
  by (cases s) auto

lemma trim_trim: "trim (trim s) = trim s"
proof (cases "trim s = []")
  case True
  have "trim [] = []" by (simp add: trim_def)
  with True show ?thesis by simp
next
  case False
  let ?t = "dropWhile isWhiteSpace s"
  let ?u = "dropWhile isWhiteSpace (rev ?t)"
  from False have u: "?u \<noteq> []" by (simp add: trim_def)
  have t: "?t \<noteq> []"
  proof
    assume e: "?t = []"
    have "dropWhile isWhiteSpace (rev []) = ([] :: jsstring)" by simp
    with u e show False by (simp only:)
  qed
  have hu: "\<not> isWhiteSpace (hd ?u)" using u by (rule hd_dropWhile)
  have ht: "\<not> isWhiteSpace (hd ?t)" using t by (rule hd_dropWhile)
  have "rev ?t = takeWhile isWhiteSpace (rev ?t) @ ?u" by simp
  then have "?t = rev ?u @ rev (takeWhile isWhiteSpace (rev ?t))"
    by (metis rev_append rev_rev_ident)
  with u have "hd ?t = hd (rev ?u)" by (metis hd_append2 rev_is_Nil_conv)
  with ht have "dropWhile isWhiteSpace (rev ?u) = rev ?u"
    using u by (simp add: dropWhile_id_hd)
  moreover have "dropWhile isWhiteSpace ?u = ?u" using u hu by (simp add: dropWhile_id_hd)
  ultimately show ?thesis by (simp add: trim_def)
qed

text \<open>
  What the two replacements remove where no \<open><\<close> stands before: the second a bare
  tag; the first a script element whose body holds no line terminator, from its
  opening tag through its closing tag, so that the result is that of the input
  without the element.
\<close>

lemma replace_tags_keep: "0x3C \<notin> set pre \<Longrightarrow> replace_tags (pre @ s) = pre @ replace_tags s"
  by (induction pre) auto

lemma replace_tags_bare_tag:
  assumes "0x3C \<notin> set pre" and "0x3E \<notin> set inner"
  shows "replace_tags (pre @ 0x3C # inner @ 0x3E # rest) = pre @ replace_tags rest"
proof -
  have "dropWhile (\<lambda>d. d \<noteq> 0x3E) (inner @ 0x3E # rest) = 0x3E # rest"
    using assms(2) by (induction inner) auto
  then have "replace_tags (0x3C # inner @ 0x3E # rest) = replace_tags rest"
    by simp
  with replace_tags_keep [OF assms(1)] show ?thesis by simp
qed

lemma canonicalize_less_than_sign: "(canonicalize c = 0x3C) = (c = 0x3C)"
  by (auto simp: canonicalize_def diff_eq_eq)

lemma match_script_less_than_sign: "match_script (c # s) = Some r \<Longrightarrow> c = 0x3C"
proof -
  assume "match_script (c # s) = Some r"
  then have "ci_prefix (js ''<script'') (c # s)"
    by (simp add: match_script_def split: if_splits)
  then have "canonicalize c = canonicalize 0x3C"
    by (simp add: js_def ci_prefix_def)
  moreover have "canonicalize 0x3C = (0x3C :: 16 word)" by (simp add: canonicalize_def)
  ultimately have "canonicalize c = 0x3C" by (simp only:)
  then show ?thesis by (simp only: canonicalize_less_than_sign)
qed

lemma replace_script_keep:
  "0x3C \<notin> set pre \<Longrightarrow> replace_script (pre @ s) = pre @ replace_script s"
proof (induction pre)
  case Nil
  show ?case by simp
next
  case (Cons c pre)
  then have "match_script (c # pre @ s) = None"
    using match_script_less_than_sign [of c "pre @ s"] by (cases "match_script (c # pre @ s)") auto
  with Cons show ?case by simp
qed

lemma same_ignoring_case_length: "same_ignoring_case s t \<Longrightarrow> length s = length t"
  unfolding same_ignoring_case_def by (rule map_eq_imp_length_eq)

lemma ci_prefix_same: "same_ignoring_case s pat \<Longrightarrow> ci_prefix pat (s @ rest)"
  by (simp add: same_ignoring_case_def ci_prefix_def)

lemma ci_prefix_shorten:
  assumes "ci_prefix pat (xs @ ys)" and "length pat \<le> length xs"
  shows "ci_prefix pat xs"
proof -
  from assms(1) have p: "prefix (map canonicalize pat) (map canonicalize xs @ map canonicalize ys)"
    by (simp add: ci_prefix_def)
  have q: "prefix (map canonicalize xs) (map canonicalize xs @ map canonicalize ys)"
    by simp
  from assms(2) have "length (map canonicalize pat) \<le> length (map canonicalize xs)"
    by simp
  with p q have "prefix (map canonicalize pat) (map canonicalize xs)"
    by (rule prefix_length_prefix)
  then show ?thesis by (simp add: ci_prefix_def)
qed

lemma lazy_close_element:
  assumes "list_all (\<lambda>c. \<not> isLineTerminator c) body"
    and "closes_first body cls"
    and "same_ignoring_case cls (js ''</script>'')"
  shows "lazy_close (body @ cls @ rest) = Some rest"
  using assms(1,2)
proof (induction body)
  case Nil
  have len: "length cls = 9"
    using same_ignoring_case_length [OF assms(3)] by (simp add: js_def)
  then obtain c s where cs: "cls = c # s" by (cases cls) auto
  have "ci_prefix (js ''</script>'') (cls @ rest)" using assms(3) by (rule ci_prefix_same)
  moreover have "drop 9 (cls @ rest) = rest" using len by simp
  ultimately have "lazy_close ((c # s) @ rest) = Some rest"
    unfolding cs by simp
  then show ?case by (simp add: cs)
next
  case (Cons c body)
  have len: "length cls = 9"
    using same_ignoring_case_length [OF assms(3)] by (simp add: js_def)
  from Cons.prems have c: "\<not> isLineTerminator c"
    and nc: "\<not> ci_prefix (js ''</script>'') (c # body @ cls)"
    and rest: "list_all (\<lambda>c. \<not> isLineTerminator c) body" "closes_first body cls"
    by simp_all
  have "\<not> ci_prefix (js ''</script>'') ((c # body @ cls) @ rest)"
  proof
    assume "ci_prefix (js ''</script>'') ((c # body @ cls) @ rest)"
    then have "ci_prefix (js ''</script>'') (c # body @ cls)"
      by (rule ci_prefix_shorten) (simp add: len js_def)
    with nc show False by simp
  qed
  then have "\<not> ci_prefix (js ''</script>'') (c # body @ cls @ rest)" by simp
  with c Cons.IH [OF rest] show ?case by simp
qed

lemma match_script_element:
  assumes "same_ignoring_case opn (js ''<script'')"
    and "0x3E \<notin> set attrs"
    and "list_all (\<lambda>c. \<not> isLineTerminator c) body"
    and "closes_first body cls"
    and "same_ignoring_case cls (js ''</script>'')"
  shows "match_script (opn @ attrs @ 0x3E # body @ cls @ rest) = Some rest"
proof -
  have len: "length opn = 7"
    using same_ignoring_case_length [OF assms(1)] by (simp add: js_def)
  have "ci_prefix (js ''<script'') (opn @ attrs @ 0x3E # body @ cls @ rest)"
    using assms(1) by (rule ci_prefix_same)
  moreover have "drop 7 (opn @ attrs @ 0x3E # body @ cls @ rest)
      = attrs @ 0x3E # body @ cls @ rest"
    using len by simp
  moreover have "dropWhile (\<lambda>c. c \<noteq> 0x3E) (attrs @ 0x3E # body @ cls @ rest)
      = 0x3E # body @ cls @ rest"
    using assms(2) by (induction attrs) auto
  ultimately show ?thesis
    by (simp add: match_script_def lazy_close_element [OF assms(3,4,5)])
qed

lemma replace_script_element:
  assumes "0x3C \<notin> set pre"
    and "same_ignoring_case opn (js ''<script'')"
    and "0x3E \<notin> set attrs"
    and "list_all (\<lambda>c. \<not> isLineTerminator c) body"
    and "closes_first body cls"
    and "same_ignoring_case cls (js ''</script>'')"
  shows "replace_script (pre @ opn @ attrs @ 0x3E # body @ cls @ rest)
           = pre @ replace_script rest"
proof -
  let ?e = "opn @ attrs @ 0x3E # body @ cls @ rest"
  have "length opn = 7"
    using same_ignoring_case_length [OF assms(2)] by (simp add: js_def)
  then obtain c s where cs: "?e = c # s" by (cases opn) auto
  have m: "match_script (c # s) = Some rest"
    using match_script_element [OF assms(2-6), of rest] by (simp only: cs)
  have "replace_script (c # s) = replace_script rest"
    by (simp only: replace_script.simps m option.case)
  then have "replace_script ?e = replace_script rest" by (simp only: cs)
  with replace_script_keep [OF assms(1), of ?e] show ?thesis by simp
qed

lemma sanitizeInput_script_element:
  assumes "0x3C \<notin> set pre"
    and "same_ignoring_case opn (js ''<script'')"
    and "0x3E \<notin> set attrs"
    and "list_all (\<lambda>c. \<not> isLineTerminator c) body"
    and "closes_first body cls"
    and "same_ignoring_case cls (js ''</script>'')"
  shows "sanitizeInput (pre @ opn @ attrs @ 0x3E # body @ cls @ rest)
           = sanitizeInput (pre @ rest)"
proof -
  have "replace_script (pre @ opn @ attrs @ 0x3E # body @ cls @ rest) = pre @ replace_script rest"
    by (rule replace_script_element [OF assms])
  also have "\<dots> = replace_script (pre @ rest)"
    by (rule replace_script_keep [OF assms(1), symmetric])
  finally show ?thesis by (simp only: sanitizeInput_def)
qed

text \<open>The example of the specification, and one with bare tags.\<close>

lemma sanitize_example_script:
  "sanitizeInput (js ''<script>alert(1)</script>Create a blog'') = js ''Create a blog''"
  by code_simp

lemma sanitize_example_tags:
  "sanitizeInput (js ''  Create <b>a</b> blog<br/> '') = js ''Create a blog''"
  by code_simp

text \<open>
  C6: for every string, \<open>sanitizeInput\<close> removes any substring of the shape of a script
  element, from the opening tag through the matching closing tag, and any other tag
  as a bare tag, then trims the surrounding white space, so that the result contains
  no tag-like markup. The first pattern is there to take the body of a script
  element away with its tags, and it does so when the element stands on one line
  (second equation). Its dot matches no line terminator: when the body spans lines
  the pattern finds no match, the second pattern removes the two tags as bare tags,
  and the body stays in the result (first equation).
\<close>

theorem C6_multiline_script:
  \<open>sanitizeInput (js ''<script>
alert(1)
</script>Create a blog'') = js ''alert(1)
Create a blog''
   \<and> sanitizeInput (js ''<script>alert(1)</script>Create a blog'') = js ''Create a blog''\<close>
  by code_simp

subsection \<open>The headings of the five documents\<close>

lemma heading_split:
  "prefix (phase_heading n (js t) name)
     (js ''# Phase '' @ decimal n @ js ('': '' @ t @ '' - '') @ name @ rest)"
  by (simp add: phase_heading_def js_def del: decimal.simps)

lemma if_append_same: "(if b then xs @ ys else xs @ zs) = xs @ (if b then ys else zs)"
  by simp

lemma if_append_opt: "(if b then xs @ ys else xs) = xs @ (if b then ys else [])"
  by simp

lemma specification_heading:
  "prefix (phase_heading n (js ''Specification'') (projectName spec))
     (generateSpecificationContent n spec)"
  unfolding generateSpecificationContent_def
  using heading_split [of n "''Specification''"] by (simp del: decimal.simps)

lemma pseudocode_heading:
  "prefix (phase_heading n (js ''Pseudocode'') (projectName spec))
     (generatePseudocodeContent n spec)"
  unfolding generatePseudocodeContent_def
  using heading_split [of n "''Pseudocode''"] by (simp del: decimal.simps)

lemma refinement_heading:
  "prefix (phase_heading n (js ''Refinement'') (projectName spec))
     (generateRefinementContent n spec)"
  unfolding generateRefinementContent_def
  using heading_split [of n "''Refinement''"] by (simp del: decimal.simps)

lemma completion_heading:
  "prefix (phase_heading n (js ''Completion'') (projectName spec))
     (generateCompletionContent h n spec)"
  unfolding generateCompletionContent_def
  using heading_split [of n "''Completion''"] by (simp del: decimal.simps)

lemma architecture_heading:
  "prefix (phase_heading n (js ''Architecture'') (projectName spec))
     (generateArchitectureContent h n spec)"
  unfolding generateArchitectureContent_def Let_def if_append_same if_append_opt
  using heading_split [of n "''Architecture''"] by (simp del: decimal.simps split del: if_split)

lemma phase_heading_not_Nil: "phase_heading n title name \<noteq> []"
  by (simp add: phase_heading_def js_def)

lemma prefix_not_Nil: "prefix xs ys \<Longrightarrow> xs \<noteq> [] \<Longrightarrow> ys \<noteq> []"
  by auto

subsection \<open>generatePhaseContent and generatePhase\<close>

lemma indexOf_validPhases:
  "indexOf validPhases (js ''specification'') = 0"
  "indexOf validPhases (js ''pseudocode'') = 1"
  "indexOf validPhases (js ''architecture'') = 2"
  "indexOf validPhases (js ''refinement'') = 3"
  "indexOf validPhases (js ''completion'') = 4"
  by (simp_all add: validPhases_def js_inject)

lemma generatePhaseContent_valid:
  "generatePhaseContent h (js ''specification'') spec = Inr (generateSpecificationContent 1 spec)"
  "generatePhaseContent h (js ''pseudocode'') spec = Inr (generatePseudocodeContent 2 spec)"
  "generatePhaseContent h (js ''architecture'') spec = Inr (generateArchitectureContent h 3 spec)"
  "generatePhaseContent h (js ''refinement'') spec = Inr (generateRefinementContent 4 spec)"
  "generatePhaseContent h (js ''completion'') spec = Inr (generateCompletionContent h 5 spec)"
  by (simp_all add: generatePhaseContent_def indexOf_validPhases js_inject)

lemma generatePhaseContent_nth:
  assumes "i < 5"
  shows "\<exists>c. generatePhaseContent h (validPhases ! i) spec = Inr c
           \<and> prefix (phase_heading (i + 1) (phase_titles ! i) (projectName spec)) c"
proof -
  from assms consider "i = 0" | "i = 1" | "i = 2" | "i = 3" | "i = 4" by linarith
  then show ?thesis
  proof cases
    case 1
    show ?thesis
      unfolding 1 using specification_heading [of 1 spec]
      by (simp add: validPhases_def phase_titles_def generatePhaseContent_valid eval_nat_numeral)
  next
    case 2
    show ?thesis
      unfolding 2 using pseudocode_heading [of 2 spec]
      by (simp add: validPhases_def phase_titles_def generatePhaseContent_valid eval_nat_numeral)
  next
    case 3
    show ?thesis
      unfolding 3 using architecture_heading [of 3 spec h]
      by (simp add: validPhases_def phase_titles_def generatePhaseContent_valid eval_nat_numeral)
  next
    case 4
    show ?thesis
      unfolding 4 using refinement_heading [of 4 spec]
      by (simp add: validPhases_def phase_titles_def generatePhaseContent_valid eval_nat_numeral)
  next
    case 5
    show ?thesis
      unfolding 5 using completion_heading [of 5 spec h]
      by (simp add: validPhases_def phase_titles_def generatePhaseContent_valid eval_nat_numeral)
  qed
qed

lemma in_validPhases_nth: "p \<in> set validPhases \<Longrightarrow> \<exists>i<5. p = validPhases ! i"
proof -
  assume "p \<in> set validPhases"
  then obtain i where "i < length validPhases" "validPhases ! i = p"
    by (auto simp: in_set_conv_nth)
  then have "i < 5 \<and> p = validPhases ! i" by (simp add: validPhases_def)
  then show ?thesis by blast
qed

lemma generatePhaseContent_ok:
  assumes "p \<in> set validPhases"
  shows "\<exists>c. generatePhaseContent h p spec = Inr c \<and> c \<noteq> []"
proof -
  from in_validPhases_nth [OF assms] obtain i where i: "i < 5" "p = validPhases ! i" by blast
  from generatePhaseContent_nth [OF i(1), of h spec] obtain c where
    c: "generatePhaseContent h (validPhases ! i) spec = Inr c"
       "prefix (phase_heading (i + 1) (phase_titles ! i) (projectName spec)) c" by blast
  from c(2) have "c \<noteq> []" by (rule prefix_not_Nil) (rule phase_heading_not_Nil)
  with c(1) i(2) show ?thesis by simp
qed

lemma generatePhase_Inr:
  "p \<in> set validPhases \<Longrightarrow> gpc p spec = Inr c \<Longrightarrow>
     generatePhase gpc now p spec = Inr (sparc_file now spec p c)"
  by (simp add: generatePhase_def sparc_file_def)

lemma generatePhase_Inr_D:
  "generatePhase gpc now p spec = Inr f \<Longrightarrow> \<not> isl (gpc p spec)"
  by (cases "gpc p spec") (auto simp: generatePhase_def split: if_splits)

lemma generatePhaseContent_phase_content:
  "p \<in> set validPhases \<Longrightarrow> generatePhaseContent h p spec = Inr (phase_content h spec p)"
  using generatePhaseContent_ok [of p h spec] by (auto simp: phase_content_def)

lemma phase_content_not_Nil: "p \<in> set validPhases \<Longrightarrow> phase_content h spec p \<noteq> []"
  using generatePhaseContent_ok [of p h spec] by (auto simp: phase_content_def)

lemma example_spec_generated:
  "generateStructuredSpec ascii_host
     (js ''Create a simple blog application with user authentication'') = Inr example_spec"
  by code_simp

text \<open>
  C2: for each of the five valid phase names, \<open>generatePhase\<close> returns a file whose
  content begins with the heading \<open># Phase {N}: {Title} - {projectName}\<close>, where \<open>N\<close> is
  the position of the phase in the fixed order, counted from 1, and the title is the
  one the table \<open>titles\<close> gives the phase; for every other phase name it fails with the
  error "Invalid phase name", whatever the content generator. The instance is the
  architecture phase (the third) and the name \<open>invalid-phase\<close> of the test suite.
\<close>

theorem C2_generatePhase:
  "(i < 5 \<longrightarrow>
      (\<exists>file. generatePhase (generatePhaseContent h) now (validPhases ! i) spec = Inr file
         \<and> phase file = validPhases ! i
         \<and> getPhaseTitle h (validPhases ! i) = Some (phase_titles ! i)
         \<and> prefix (phase_heading (i + 1) (phase_titles ! i) (projectName spec))
              (content file)))
   \<and> (p \<notin> set validPhases
      \<longrightarrow> generatePhase gpc now p spec = Inl (Error (js ''Invalid phase name'')))"
proof (intro conjI impI)
  assume i: "i < 5"
  from generatePhaseContent_nth [OF i, of h spec] obtain c where
    c: "generatePhaseContent h (validPhases ! i) spec = Inr c"
       "prefix (phase_heading (i + 1) (phase_titles ! i) (projectName spec)) c" by blast
  have "length validPhases = 5" by (simp add: validPhases_def)
  with i have v: "validPhases ! i \<in> set validPhases" by (simp only: nth_mem)
  from i consider "i = 0" | "i = 1" | "i = 2" | "i = 3" | "i = 4" by linarith
  then have t: "getPhaseTitle h (validPhases ! i) = Some (phase_titles ! i)"
    by cases
      (simp_all add: getPhaseTitle_def titles_def validPhases_def phase_titles_def js_inject)
  from generatePhase_Inr [where gpc = "generatePhaseContent h", OF v c(1), of now] c(2) t
  show "\<exists>file. generatePhase (generatePhaseContent h) now (validPhases ! i) spec = Inr file
         \<and> phase file = validPhases ! i
         \<and> getPhaseTitle h (validPhases ! i) = Some (phase_titles ! i)
         \<and> prefix (phase_heading (i + 1) (phase_titles ! i) (projectName spec))
              (content file)"
    by (simp add: sparc_file_def)
next
  assume "p \<notin> set validPhases"
  then show "generatePhase gpc now p spec = Inl (Error (js ''Invalid phase name''))"
    by (simp add: generatePhase_def)
qed

theorem C2_generatePhase_witness:
  "(\<exists>file. generatePhase (generatePhaseContent ascii_host) (example_clock 0)
              (js ''architecture'') example_spec = Inr file
       \<and> prefix (js ''# Phase 3: Architecture - Blog Application'') (content file))
   \<and> generatePhase (generatePhaseContent ascii_host) (example_clock 0)
        (js ''invalid-phase'') example_spec = Inl (Error (js ''Invalid phase name''))"
proof -
  have a: "validPhases ! 2 = js ''architecture''" by (simp add: validPhases_def)
  have b: "phase_heading (2 + 1) (phase_titles ! 2) (projectName example_spec)
             = js ''# Phase 3: Architecture - Blog Application''"
    by (simp add: phase_heading_def phase_titles_def example_spec_def js_def)
  have c: "js ''invalid-phase'' \<notin> set validPhases"
    by (simp add: validPhases_def js_inject)
  have d: "(2 :: nat) < 5" by simp
  from C2_generatePhase [of 2 ascii_host "example_clock 0" example_spec "js ''invalid-phase''"
      "generatePhaseContent ascii_host"] a b c d
  show ?thesis by auto
qed

subsection \<open>generateAllPhases\<close>

text \<open>The loop on phases whose content is generated: one file each, in order.\<close>

lemma phases_loop_ok:
  assumes "\<And>p. p \<in> set ps \<Longrightarrow> p \<in> set validPhases \<and> gpc p spec = Inr (g p)"
  shows "phases_loop gpc clock spec ps acc
           = Inr (acc @ map (\<lambda>(i, p). sparc_file (clock (length acc + i)) spec p (g p))
                          (indexed ps))"
  using assms
proof (induction ps arbitrary: acc)
  case Nil
  show ?case by (simp add: indexed_def)
next
  case (Cons p ps)
  have p: "p \<in> set validPhases" "gpc p spec = Inr (g p)" using Cons.prems [of p] by simp_all
  have rest: "\<And>q. q \<in> set ps \<Longrightarrow> q \<in> set validPhases \<and> gpc q spec = Inr (g q)"
    using Cons.prems by simp
  have shift: "indexed (p # ps) = (0, p) # map (\<lambda>(i, q). (Suc i, q)) (indexed ps)"
    unfolding indexed_def
    by (simp add: upt_conv_Cons map_Suc_upt [symmetric] zip_map1 del: upt_Suc)
  show ?case
    using Cons.IH [OF rest, of "acc @ [sparc_file (clock (length acc)) spec p (g p)]"]
    by (simp add: generatePhase_Inr [where gpc = gpc and c = "g p", OF p] shift split_def o_def)
qed

text \<open>The loop on phases one of which fails: the exception leaves it.\<close>

lemma phases_loop_fails:
  "\<exists>p\<in>set ps. isl (gpc p spec) \<Longrightarrow> isl (phases_loop gpc clock spec ps acc)"
proof (induction ps arbitrary: acc)
  case Nil
  then show ?case by simp
next
  case (Cons p ps)
  show ?case
  proof (cases "generatePhase gpc (clock (length acc)) p spec")
    case (Inl e)
    then show ?thesis by simp
  next
    case (Inr f)
    then have "\<not> isl (gpc p spec)" by (rule generatePhase_Inr_D)
    with Cons.prems have "\<exists>q\<in>set ps. isl (gpc q spec)" by auto
    from Cons.IH [OF this] Inr show ?thesis by simp
  qed
qed

lemma generateAllPhases_fails:
  "\<exists>p\<in>set validPhases. isl (gpc p spec) \<Longrightarrow>
     generateAllPhases gpc clock spec = Inl (Error (js ''Failed to generate SPARC documentation''))"
proof -
  assume "\<exists>p\<in>set validPhases. isl (gpc p spec)"
  then have "isl (phases_loop gpc clock spec validPhases [])" by (rule phases_loop_fails)
  then show ?thesis by (auto simp: generateAllPhases_def isl_def)
qed

lemma generateAllPhases_ok:
  "generateAllPhases (generatePhaseContent h) clock spec
     = Inr (map (\<lambda>(i, p). sparc_file (clock i) spec p (phase_content h spec p))
              (indexed validPhases))"
  using phases_loop_ok [of validPhases "generatePhaseContent h" spec "phase_content h spec"
      clock "[]"]
  by (simp add: generateAllPhases_def generatePhaseContent_phase_content)

lemma indexed_validPhases:
  "indexed validPhases =
     [(0, js ''specification''), (1, js ''pseudocode''), (2, js ''architecture''),
      (3, js ''refinement''), (4, js ''completion'')]"
  by (simp add: indexed_def validPhases_def upt_conv_Cons)

text \<open>
  C1: for every structured spec, \<open>generateAllPhases\<close> returns a list of exactly five
  files, in the fixed order of the phases (specification, pseudocode, architecture,
  refinement, completion), each with a non-empty content and with its metadata
  populated (the time of generation, the project name, the complexity, the phase and
  the suggested technologies); and if the content generation throws for any phase, the
  whole operation fails with the single error "Failed to generate SPARC documentation"
  and returns no list. In the instance the content generator rejects in the fourth
  phase, after three files have been built.
\<close>

theorem C1_generateAllPhases:
  "(\<exists>sparcFiles.
      generateAllPhases (generatePhaseContent h) clock spec = Inr sparcFiles
      \<and> length sparcFiles = 5
      \<and> map phase sparcFiles = validPhases
      \<and> list_all (\<lambda>f. content f \<noteq> []) sparcFiles
      \<and> map metadata sparcFiles
          = map (\<lambda>(i, p). \<lparr>generatedAt = clock i,
                            md_projectName = projectName spec,
                            md_complexity = determineComplexity spec,
                            md_phase = p,
                            md_technologies = suggested (technologies spec)\<rparr>)
              (indexed validPhases))
   \<and> ((\<exists>p. p \<in> set validPhases \<and> isl (gpc p spec))
      \<longrightarrow> generateAllPhases gpc clock spec
            = Inl (Error (js ''Failed to generate SPARC documentation'')))"
proof (intro conjI impI)
  let ?fs = "map (\<lambda>(i, p). sparc_file (clock i) spec p (phase_content h spec p))
               (indexed validPhases)"
  have "length ?fs = 5" by (simp add: indexed_validPhases)
  moreover have "map phase ?fs = validPhases"
    unfolding indexed_validPhases by (simp add: sparc_file_def validPhases_def)
  moreover have "list_all (\<lambda>f. content f \<noteq> []) ?fs"
    unfolding indexed_validPhases
    by (simp add: sparc_file_def phase_content_not_Nil validPhases_def)
  moreover have "map metadata ?fs
          = map (\<lambda>(i, p). \<lparr>generatedAt = clock i,
                            md_projectName = projectName spec,
                            md_complexity = determineComplexity spec,
                            md_phase = p,
                            md_technologies = suggested (technologies spec)\<rparr>)
              (indexed validPhases)"
    by (simp add: sparc_file_def split_def)
  ultimately show "\<exists>sparcFiles.
      generateAllPhases (generatePhaseContent h) clock spec = Inr sparcFiles
      \<and> length sparcFiles = 5
      \<and> map phase sparcFiles = validPhases
      \<and> list_all (\<lambda>f. content f \<noteq> []) sparcFiles
      \<and> map metadata sparcFiles
          = map (\<lambda>(i, p). \<lparr>generatedAt = clock i,
                            md_projectName = projectName spec,
                            md_complexity = determineComplexity spec,
                            md_phase = p,
                            md_technologies = suggested (technologies spec)\<rparr>)
              (indexed validPhases)"
    using generateAllPhases_ok [of h clock spec] by blast
next
  assume "\<exists>p. p \<in> set validPhases \<and> isl (gpc p spec)"
  then have "\<exists>p\<in>set validPhases. isl (gpc p spec)" by blast
  then show "generateAllPhases gpc clock spec
            = Inl (Error (js ''Failed to generate SPARC documentation''))"
    by (rule generateAllPhases_fails)
qed

theorem C1_generateAllPhases_witness:
  "generateAllPhases failing_refinement example_clock example_spec
     = Inl (Error (js ''Failed to generate SPARC documentation''))"
proof -
  have "js ''refinement'' \<in> set validPhases
          \<and> isl (failing_refinement (js ''refinement'') example_spec)"
    by (simp add: validPhases_def failing_refinement_def)
  then have "\<exists>p. p \<in> set validPhases \<and> isl (failing_refinement p example_spec)" by blast
  with C1_generateAllPhases [of ascii_host example_clock example_spec failing_refinement]
  show ?thesis by blast
qed

subsection \<open>determineComplexity\<close>

text \<open>
  C5: for every structured spec, the \<open>metadata.complexity\<close> of each generated file is
  \<open>determineComplexity\<close> of the spec, which the counts of features, requirements and
  constraints determine: at most 2 features and neither more than 3 requirements nor
  more than 1 constraint gives low; at most 5 features under the same condition gives
  medium; otherwise high. The value does not depend on the complexity of the project
  category and differs from it for some inputs: "Build an e-commerce store" is of
  category complexity high, and its spec is of complexity low.
\<close>

theorem C5_complexity:
  "(\<exists>sparcFiles.
      generateAllPhases (generatePhaseContent h) clock spec = Inr sparcFiles
      \<and> list_all (\<lambda>f. md_complexity (metadata f) = determineComplexity spec) sparcFiles)
   \<and> determineComplexity spec
       = (if length (features spec) \<le> 2
             \<and> \<not> (length (requirements spec) > 3 \<or> length (constraints spec) > 1)
          then js ''low''
          else if length (features spec) \<le> 5
             \<and> \<not> (length (requirements spec) > 3 \<or> length (constraints spec) > 1)
          then js ''medium''
          else js ''high'')
   \<and> (case generateStructuredSpec ascii_host (js ''Build an e-commerce store'') of
         Inl e \<Rightarrow> False
       | Inr s \<Rightarrow> determineComplexity s = js ''low'')
   \<and> cat_complexity (categorizeProject ascii_host (js ''Build an e-commerce store''))
       = js ''high''"
proof -
  have "list_all (\<lambda>f. md_complexity (metadata f) = determineComplexity spec)
          (map (\<lambda>(i, p). sparc_file (clock i) spec p (phase_content h spec p))
             (indexed validPhases))"
    by (simp add: list_all_iff sparc_file_def split_def)
  then have 1: "\<exists>sparcFiles.
      generateAllPhases (generatePhaseContent h) clock spec = Inr sparcFiles
      \<and> list_all (\<lambda>f. md_complexity (metadata f) = determineComplexity spec) sparcFiles"
    using generateAllPhases_ok [of h clock spec] by blast
  have 2: "determineComplexity spec
       = (if length (features spec) \<le> 2
             \<and> \<not> (length (requirements spec) > 3 \<or> length (constraints spec) > 1)
          then js ''low''
          else if length (features spec) \<le> 5
             \<and> \<not> (length (requirements spec) > 3 \<or> length (constraints spec) > 1)
          then js ''medium''
          else js ''high'')"
    by (simp add: determineComplexity_def Let_def)
  have 3: "(case generateStructuredSpec ascii_host (js ''Build an e-commerce store'') of
         Inl e \<Rightarrow> False
       | Inr s \<Rightarrow> determineComplexity s = js ''low'')"
    by code_simp
  have 4: "cat_complexity (categorizeProject ascii_host (js ''Build an e-commerce store''))
       = js ''high''"
    by code_simp
  from 1 2 3 4 show ?thesis by blast
qed

subsection \<open>The component list of the architecture document\<close>

lemma str_includes_iff: "str_includes s t = (\<exists>a b. s = a @ t @ b)"
proof (induction s)
  case Nil
  show ?case by auto
next
  case (Cons c s)
  show ?case
  proof
    assume "str_includes (c # s) t"
    then consider "prefix t (c # s)" | "str_includes s t" by auto
    then show "\<exists>a b. c # s = a @ t @ b"
    proof cases
      case 1
      then obtain b where "c # s = [] @ t @ b" by (auto simp: prefix_def)
      then show ?thesis by blast
    next
      case 2
      with Cons.IH obtain a b where "s = a @ t @ b" by blast
      then have "c # s = (c # a) @ t @ b" by simp
      then show ?thesis by blast
    qed
  next
    assume "\<exists>a b. c # s = a @ t @ b"
    then obtain a b where eq: "c # s = a @ t @ b" by blast
    show "str_includes (c # s) t"
    proof (cases a)
      case Nil
      with eq have "prefix t (c # s)" by (simp add: prefix_def)
      then show ?thesis by simp
    next
      case (Cons d a')
      with eq have "s = a' @ t @ b" by simp
      with Cons.IH show ?thesis by auto
    qed
  qed
qed

lemma join_contains:
  "x \<in> set xs \<Longrightarrow> \<exists>pre post. join sep xs = pre @ x @ post"
proof (induction sep xs rule: join.induct)
  case (1 sep)
  then show ?case by simp
next
  case (2 sep y)
  then have "join sep [y] = [] @ x @ []" by simp
  then show ?case by blast
next
  case (3 sep y z zs)
  show ?case
  proof (cases "x = y")
    case True
    then have "join sep (y # z # zs) = [] @ x @ (sep @ join sep (z # zs))" by simp
    then show ?thesis by blast
  next
    case False
    with 3 obtain pre post where "join sep (z # zs) = pre @ x @ post" by auto
    then have "join sep (y # z # zs) = (y @ sep @ pre) @ x @ post" by simp
    then show ?thesis by blast
  qed
qed

lemma architecture_components:
  "\<exists>before after. generateArchitectureContent h n spec
      = before @ js ''## Component Structure\<newline>''
        @ join (js ''\<newline>'') (component_lines h spec) @ after"
proof -
  have split: \<open>js ''
```

## Component Structure
'' = js ''
```

'' @ js ''## Component Structure\<newline>''\<close>
    by (simp add: js_def)
  have ex: "\<And>a b c d e :: jsstring. \<exists>before after. a @ (b @ c) @ d @ e = before @ c @ d @ after"
  proof -
    fix a b c d e :: jsstring
    have "a @ (b @ c) @ d @ e = (a @ b) @ c @ d @ e" by simp
    then show "\<exists>before after. a @ (b @ c) @ d @ e = before @ c @ d @ after" by blast
  qed
  show ?thesis
    unfolding generateArchitectureContent_def Let_def component_lines_def split
    by (rule ex)
qed

text \<open>
  C9: for every structured spec, every technology in \<open>technologies.suggested\<close> appears
  verbatim in the component list of the architecture document generated from the
  spec: the list that follows the heading \<open>## Component Structure\<close> has the line of the
  technology, and the technology occurs in it as a substring.
\<close>

theorem C9_round_trip:
  "tech \<in> set (suggested (technologies spec)) \<Longrightarrow>
     \<exists>file before after.
        generatePhase (generatePhaseContent h) now (js ''architecture'') spec = Inr file
        \<and> content file = before @ js ''## Component Structure\<newline>''
             @ join (js ''\<newline>'') (component_lines h spec) @ after
        \<and> js ''- '' @ tech @ js '': '' @ getTechnologyDescription h tech
             \<in> set (component_lines h spec)
        \<and> str_includes (join (js ''\<newline>'') (component_lines h spec)) tech"
proof -
  assume t: "tech \<in> set (suggested (technologies spec))"
  let ?line = "js ''- '' @ tech @ js '': '' @ getTechnologyDescription h tech"
  from t have l: "?line \<in> set (component_lines h spec)"
    by (auto simp: component_lines_def)
  from join_contains [OF l, of "js ''\<newline>''"] obtain pre post where
    "join (js ''\<newline>'') (component_lines h spec) = pre @ ?line @ post" by blast
  then have "join (js ''\<newline>'') (component_lines h spec)
      = (pre @ js ''- '') @ tech @ (js '': '' @ getTechnologyDescription h tech @ post)"
    by simp
  then have inc: "str_includes (join (js ''\<newline>'') (component_lines h spec)) tech"
    unfolding str_includes_iff by blast
  have a: "js ''architecture'' \<in> set validPhases" by (simp add: validPhases_def)
  from generatePhase_Inr [where gpc = "generatePhaseContent h", OF a generatePhaseContent_valid(3)]
  have g: "generatePhase (generatePhaseContent h) now (js ''architecture'') spec
     = Inr (sparc_file now spec (js ''architecture'') (generateArchitectureContent h 3 spec))" .
  from architecture_components [of h 3 spec] obtain before after where
    c: "generateArchitectureContent h 3 spec
      = before @ js ''## Component Structure\<newline>''
        @ join (js ''\<newline>'') (component_lines h spec) @ after" by blast
  have "content (sparc_file now spec (js ''architecture'') (generateArchitectureContent h 3 spec))
      = before @ js ''## Component Structure\<newline>''
        @ join (js ''\<newline>'') (component_lines h spec) @ after"
    by (simp only: c sparc_file_def SparcFile.select_convs)
  with g l inc show ?thesis by blast
qed

theorem C9_round_trip_witness:
  "\<exists>file before after.
        generatePhase (generatePhaseContent ascii_host) (example_clock 2) (js ''architecture'')
          example_spec = Inr file
        \<and> content file = before @ js ''## Component Structure\<newline>''
             @ join (js ''\<newline>'') (component_lines ascii_host example_spec) @ after
        \<and> js ''- Node.js: Backend JavaScript runtime''
             \<in> set (component_lines ascii_host example_spec)
        \<and> str_includes (join (js ''\<newline>'') (component_lines ascii_host example_spec))
             (js ''Node.js'')"
proof -
  have t: "js ''Node.js'' \<in> set (suggested (technologies example_spec))"
    by (simp add: example_spec_def)
  have d: "js ''- '' @ js ''Node.js'' @ js '': '' @ getTechnologyDescription ascii_host (js ''Node.js'')
             = js ''- Node.js: Backend JavaScript runtime''"
    by (simp add: getTechnologyDescription_def descriptions_def js_inject) (simp add: js_def)
  from C9_round_trip [OF t, of ascii_host "example_clock 2"] show ?thesis
    unfolding d .
qed

subsection \<open>generate\<close>

text \<open>\<open>x || true\<close> is true whatever \<open>x\<close> is.\<close>

lemma or_bool_True: "or_bool a True = True"
  by (simp add: or_bool_def split: option.splits)

lemma generate_ok:
  "generate (generatePhaseContent h) h clock spec requestMetadata =
     (let framework = or_string (optional_field requestMetadata req_framework) (js ''react'');
          sparcFiles = map (\<lambda>(i, p). sparc_file (clock i) spec p (phase_content h spec p))
                         (indexed validPhases);
          st = sparc_forEach sparcFiles ([], [], [])
      in Inr \<lparr>out_files = fst st @ generateFrameworkFiles h framework spec
                           @ generateTestFiles h framework spec
                           @ generateDocumentationFiles spec,
              out_specification = fst (snd st),
              out_architecture = snd (snd st)\<rparr>)"
  by (simp add: generate_def generateAllPhases_ok or_bool_True Let_def split_def)

text \<open>
  C10: for every structured spec and every request metadata, present or not,
  \<open>generate\<close> succeeds and its files end with the test scaffold (\<open>tests/setup.ts\<close> and
  one test file for each feature) and the documentation files (\<open>README.md\<close> and
  \<open>CONTRIBUTING.md\<close>). The default \<open>|| true\<close> turns a flag that is \<open>false\<close> into \<open>true\<close>:
  a request with \<open>includeTests\<close> and \<open>includeDocs\<close> both false gets the result of the
  request with both true, so no request suppresses these files.
\<close>

theorem C10_tests_and_docs:
  "(\<exists>out front.
      generate (generatePhaseContent h) h clock spec requestMetadata = Inr out
      \<and> out_files out
          = front
            @ generateTestFiles h
                (or_string (optional_field requestMetadata req_framework) (js ''react'')) spec
            @ generateDocumentationFiles spec)
   \<and> map file_name (generateTestFiles h fw spec)
       = js ''tests/setup.ts''
         # map (\<lambda>feature. js ''tests/'' @ replace_spaces (js ''-'') (toLowerCase h feature)
                            @ js ''.test.ts'')
             (features spec)
   \<and> map file_name (generateDocumentationFiles spec) = [js ''README.md'', js ''CONTRIBUTING.md'']
   \<and> generate (generatePhaseContent h) h clock spec
         (Some (m\<lparr>req_includeTests := Some False, req_includeDocs := Some False\<rparr>))
       = generate (generatePhaseContent h) h clock spec
           (Some (m\<lparr>req_includeTests := Some True, req_includeDocs := Some True\<rparr>))"
proof -
  have 1: "\<exists>out front.
      generate (generatePhaseContent h) h clock spec requestMetadata = Inr out
      \<and> out_files out
          = front
            @ generateTestFiles h
                (or_string (optional_field requestMetadata req_framework) (js ''react'')) spec
            @ generateDocumentationFiles spec"
  proof -
    define framework where
      "framework = or_string (optional_field requestMetadata req_framework) (js ''react'')"
    define st where
      "st = sparc_forEach
              (map (\<lambda>(i, p). sparc_file (clock i) spec p (phase_content h spec p))
                 (indexed validPhases)) ([], [], [])"
    let ?out = "\<lparr>out_files = fst st @ generateFrameworkFiles h framework spec
                           @ generateTestFiles h framework spec
                           @ generateDocumentationFiles spec,
              out_specification = fst (snd st),
              out_architecture = snd (snd st)\<rparr>"
    have "generate (generatePhaseContent h) h clock spec requestMetadata = Inr ?out"
      unfolding generate_ok Let_def framework_def st_def by (rule refl)
    moreover have "out_files ?out
        = (fst st @ generateFrameworkFiles h framework spec)
          @ generateTestFiles h framework spec @ generateDocumentationFiles spec"
      by simp
    ultimately show ?thesis unfolding framework_def by blast
  qed
  have 2: "map file_name (generateTestFiles h fw spec)
       = js ''tests/setup.ts''
         # map (\<lambda>feature. js ''tests/'' @ replace_spaces (js ''-'') (toLowerCase h feature)
                            @ js ''.test.ts'')
             (features spec)"
    by (simp add: generateTestFiles_def o_def)
  have 3: "map file_name (generateDocumentationFiles spec)
       = [js ''README.md'', js ''CONTRIBUTING.md'']"
    by (simp add: generateDocumentationFiles_def)
  have 4: "generate (generatePhaseContent h) h clock spec
         (Some (m\<lparr>req_includeTests := Some False, req_includeDocs := Some False\<rparr>))
       = generate (generatePhaseContent h) h clock spec
           (Some (m\<lparr>req_includeTests := Some True, req_includeDocs := Some True\<rparr>))"
    by (simp add: generate_ok optional_field_def)
  from 1 2 3 4 show ?thesis by blast
qed

end
